theory Spec2Isabelle
  imports Complex_Main "HOL-Library.Word"
begin

unbundle bit_operations_syntax

section \<open>Number model\<close>

text \<open>
  The renderer computes in C++ \<^verbatim>\<open>double\<close>.  The program is read in two ways.

  \<^item> The \<^emph>\<open>exact reading\<close> models every \<^verbatim>\<open>double\<close> as a \<^typ>\<open>real\<close>: arithmetic is exact,
    there is no rounding, no overflow to infinity and no NaN.  It carries the statements
    about the structure of the program (the terminal states and the recursion of
    \<^verbatim>\<open>trace\<close>, the reflection blend, the order of the pixel stores) and the statements the
    specification makes over the reals.

  \<^item> The \<^emph>\<open>binary64 reading\<close> (sections below, names with the prefix \<open>d\<close>) models a
    \<^verbatim>\<open>double\<close> as a finite real, an infinity or NaN, and rounds the result of every
    operation to the nearest binary64 value, ties to even, as IEEE 754 prescribes.  It
    carries the statements that depend on rounding: intersection parameters, stored ray
    directions and pixel bytes.

  \<^verbatim>\<open>int\<close> is modelled as \<^typ>\<open>int\<close> (no counter of the program comes near the 32-bit
  range), the packed pixel sample as a \<^typ>\<open>32 word\<close> and one colour channel as an
  \<^typ>\<open>8 word\<close>.

  Two files hold the tracer: \<^verbatim>\<open>src/raytracer.cpp\<close> (the optimised engine) and
  \<^verbatim>\<open>src/src/main.cpp\<close> (the baseline).  Definitions taken from the baseline carry the
  suffix \<open>_main\<close>; text that is identical in both files is modelled once.
\<close>

definition DBL_MAX :: real where
  \<comment> \<open>\<^verbatim>\<open>std::numeric_limits<double>::max()\<close>, the largest finite binary64 value\<close>
  "DBL_MAX = 2 ^ 1024 - 2 ^ 971"

definition pow :: "real \<Rightarrow> real \<Rightarrow> real" where
  \<comment> \<open>\<^verbatim>\<open>pow(x, y)\<close> of \<^verbatim>\<open><cmath>\<close> for a base \<open>x \<ge> 0\<close>, the only bases \<^verbatim>\<open>trace\<close> passes;
      \<^verbatim>\<open>pow(0, y)\<close> with \<open>y < 0\<close> is infinite in C++ and has no real counterpart\<close>
  "pow x y = (if y = 0 then 1 else x powr y)"

section \<open>Vec3 (both files, lines 11-37 and 15-42)\<close>

datatype Vec3 = Vec3 (vec_x: real) (vec_y: real) (vec_z: real)

definition Vec3_add :: "Vec3 \<Rightarrow> Vec3 \<Rightarrow> Vec3" where
  "Vec3_add a v = Vec3 (vec_x a + vec_x v) (vec_y a + vec_y v) (vec_z a + vec_z v)"

definition Vec3_sub :: "Vec3 \<Rightarrow> Vec3 \<Rightarrow> Vec3" where
  "Vec3_sub a v = Vec3 (vec_x a - vec_x v) (vec_y a - vec_y v) (vec_z a - vec_z v)"

definition Vec3_mul :: "Vec3 \<Rightarrow> real \<Rightarrow> Vec3" where
  "Vec3_mul a t = Vec3 (vec_x a * t) (vec_y a * t) (vec_z a * t)"

definition Vec3_div :: "Vec3 \<Rightarrow> real \<Rightarrow> Vec3" where
  "Vec3_div a t = Vec3 (vec_x a / t) (vec_y a / t) (vec_z a / t)"

definition Vec3_dot :: "Vec3 \<Rightarrow> Vec3 \<Rightarrow> real" where
  "Vec3_dot a v = vec_x a * vec_x v + vec_y a * vec_y v + vec_z a * vec_z v"

definition Vec3_cross :: "Vec3 \<Rightarrow> Vec3 \<Rightarrow> Vec3" where
  "Vec3_cross a v =
     Vec3 (vec_y a * vec_z v - vec_z a * vec_y v)
          (vec_z a * vec_x v - vec_x a * vec_z v)
          (vec_x a * vec_y v - vec_y a * vec_x v)"

definition Vec3_length :: "Vec3 \<Rightarrow> real" where
  "Vec3_length a = sqrt (vec_x a * vec_x a + vec_y a * vec_y a + vec_z a * vec_z a)"

definition Vec3_lengthSquared :: "Vec3 \<Rightarrow> real" where
  "Vec3_lengthSquared a = vec_x a * vec_x a + vec_y a * vec_y a + vec_z a * vec_z a"

definition Vec3_normalize :: "Vec3 \<Rightarrow> Vec3" where
  "Vec3_normalize a =
     (let len = Vec3_length a in if len > 0 then Vec3_div a len else Vec3 0 0 0)"

definition Vec3_reflect :: "Vec3 \<Rightarrow> Vec3 \<Rightarrow> Vec3" where
  \<comment> \<open>\<^verbatim>\<open>*this - normal * 2 * this->dot(normal)\<close>\<close>
  "Vec3_reflect a normal = Vec3_sub a (Vec3_mul (Vec3_mul normal 2) (Vec3_dot a normal))"

section \<open>Ray, Material, Sphere, Light\<close>

record Ray =
  origin :: Vec3
  direction :: Vec3

definition Ray_new :: "Vec3 \<Rightarrow> Vec3 \<Rightarrow> Ray" where
  \<comment> \<open>the constructor \<^verbatim>\<open>Ray(o, d) : origin(o), direction(d.normalize())\<close>\<close>
  "Ray_new orig d = \<lparr>origin = orig, direction = Vec3_normalize d\<rparr>"

definition Ray_at :: "Ray \<Rightarrow> real \<Rightarrow> Vec3" where
  "Ray_at ray t = Vec3_add (origin ray) (Vec3_mul (direction ray) t)"

record Material =
  color :: Vec3
  ambient :: real
  diffuse :: real
  specular :: real
  shininess :: real
  reflectivity :: real

record Sphere =
  center :: Vec3
  radius :: real
  material :: Material

record Light =
  light_position :: Vec3
  light_color :: Vec3
  intensity :: real

definition Sphere_intersect :: "Sphere \<Rightarrow> Ray \<Rightarrow> real option" where
  \<comment> \<open>\<^verbatim>\<open>Sphere::intersect\<close> of raytracer.cpp (lines 75-106), the half-b form.  The result
      is \<open>Some t\<close> when the routine returns true with the out-parameter set to \<open>t\<close>, and
      \<open>None\<close> when it returns false (the out-parameter is then left unassigned and no
      caller reads it).\<close>
  "Sphere_intersect s ray =
     (let oc = Vec3_sub (origin ray) (center s);
          b_half = Vec3_dot oc (direction ray);
          c = Vec3_lengthSquared oc - radius s * radius s;
          discriminant = b_half * b_half - c
      in if discriminant < 0 then None
         else
           let sqrt_disc = sqrt discriminant;
               t1 = - b_half - sqrt_disc
           in if t1 > 0.001 then Some t1
              else
                let t2 = - b_half + sqrt_disc
                in if t2 > 0.001 then Some t2 else None)"

definition Sphere_intersect_main :: "Sphere \<Rightarrow> Ray \<Rightarrow> real option" where
  \<comment> \<open>\<^verbatim>\<open>Sphere::intersect\<close> of main.cpp (lines 68-89), the general quadratic\<close>
  "Sphere_intersect_main s ray =
     (let oc = Vec3_sub (origin ray) (center s);
          a = Vec3_dot (direction ray) (direction ray);
          b = 2 * Vec3_dot oc (direction ray);
          c = Vec3_dot oc oc - radius s * radius s;
          discriminant = b * b - 4 * a * c
      in if discriminant < 0 then None
         else
           let t1 = (- b - sqrt discriminant) / (2 * a);
               t2 = (- b + sqrt discriminant) / (2 * a)
           in if t1 > 0.001 then Some t1
              else if t2 > 0.001 then Some t2
              else None)"

definition Sphere_getNormal :: "Sphere \<Rightarrow> Vec3 \<Rightarrow> Vec3" where
  "Sphere_getNormal s point = Vec3_normalize (Vec3_sub point (center s))"

section \<open>Scene: the closest-hit and the any-hit query\<close>

record Scene =
  spheres :: "Sphere list"
  lights :: "Light list"
  background :: Vec3

text \<open>
  \<^verbatim>\<open>Scene::intersect\<close> has the same text in both files (raytracer.cpp lines 137-149,
  main.cpp lines 118-130); the files differ only in the \<^verbatim>\<open>Sphere::intersect\<close> it calls,
  which the model takes as the parameter \<open>isect\<close>.  The loop state is the pair
  \<open>(closest_t, hit_idx)\<close>.
\<close>

function intersect_loop ::
  "(Sphere \<Rightarrow> Ray \<Rightarrow> real option) \<Rightarrow> Sphere list \<Rightarrow> Ray \<Rightarrow> nat \<Rightarrow> real \<times> int \<Rightarrow> real \<times> int"
where
  "intersect_loop isect sps ray i (closest_t, hit_idx) =
     (if i < length sps then
        intersect_loop isect sps ray (i + 1)
          (case isect (sps ! i) ray of
             Some t \<Rightarrow> if t < closest_t then (t, int i) else (closest_t, hit_idx)
           | None \<Rightarrow> (closest_t, hit_idx))
      else (closest_t, hit_idx))"
  by pat_completeness auto
termination
  by (relation "measure (\<lambda>(isect, sps, ray, i, st). length sps - i)") auto

definition Scene_intersect_with ::
  "(Sphere \<Rightarrow> Ray \<Rightarrow> real option) \<Rightarrow> Scene \<Rightarrow> Ray \<Rightarrow> bool \<times> real \<times> int"
where
  \<comment> \<open>the result is \<open>(returned bool, closest_t, hit_idx)\<close>\<close>
  "Scene_intersect_with isect sc ray =
     (case intersect_loop isect (spheres sc) ray 0 (DBL_MAX, - 1) of
        (closest_t, hit_idx) \<Rightarrow> (hit_idx \<noteq> - 1, closest_t, hit_idx))"

definition Scene_intersect :: "Scene \<Rightarrow> Ray \<Rightarrow> bool \<times> real \<times> int" where
  "Scene_intersect = Scene_intersect_with Sphere_intersect"

definition Scene_intersect_main :: "Scene \<Rightarrow> Ray \<Rightarrow> bool \<times> real \<times> int" where
  "Scene_intersect_main = Scene_intersect_with Sphere_intersect_main"

fun intersectShadow_loop :: "Sphere list \<Rightarrow> Ray \<Rightarrow> real \<Rightarrow> bool" where
  "intersectShadow_loop [] ray max_distance = False"
| "intersectShadow_loop (sphere # rest) ray max_distance =
     (case Sphere_intersect sphere ray of
        Some t \<Rightarrow>
          if t > 0.001 \<and> t < max_distance then True
          else intersectShadow_loop rest ray max_distance
      | None \<Rightarrow> intersectShadow_loop rest ray max_distance)"

definition Scene_intersectShadow :: "Scene \<Rightarrow> Ray \<Rightarrow> real \<Rightarrow> bool" where
  \<comment> \<open>raytracer.cpp lines 152-161\<close>
  "Scene_intersectShadow sc ray max_distance =
     intersectShadow_loop (spheres sc) ray max_distance"

section \<open>Scene::trace\<close>

text \<open>
  The body of \<^verbatim>\<open>trace\<close> after a hit is split at its two comments: the local colour
  (ambient term and the loop over the lights, raytracer.cpp lines 176-204) and the
  reflected ray (lines 208-209).  \<open>in_shadow\<close> is the shadow test of the file at hand.
\<close>

fun trace_lights ::
  "(Ray \<Rightarrow> real \<Rightarrow> bool) \<Rightarrow> Sphere \<Rightarrow> Vec3 \<Rightarrow> Vec3 \<Rightarrow> Vec3 \<Rightarrow> Light list \<Rightarrow> Vec3 \<Rightarrow> Vec3"
where
  "trace_lights shadow sphere hit_point normal view_dir [] col = col"
| "trace_lights shadow sphere hit_point normal view_dir (light # rest) col =
     (let light_dir = Vec3_normalize (Vec3_sub (light_position light) hit_point);
          light_distance = Vec3_length (Vec3_sub (light_position light) hit_point);
          in_shadow = shadow (Ray_new hit_point light_dir) light_distance
      in trace_lights shadow sphere hit_point normal view_dir rest
           (if \<not> in_shadow then
              let diff = max 0 (Vec3_dot normal light_dir);
                  diffuse_col =
                    Vec3_mul (Vec3_mul (Vec3_mul (color (material sphere))
                      (diffuse (material sphere))) diff) (intensity light);
                  reflect_dir = Vec3_reflect (Vec3_mul light_dir (- 1)) normal;
                  spec = pow (max 0 (Vec3_dot view_dir reflect_dir))
                           (shininess (material sphere));
                  specular_col =
                    Vec3_mul (Vec3_mul (Vec3_mul (light_color light)
                      (specular (material sphere))) spec) (intensity light)
              in Vec3_add col (Vec3_add diffuse_col specular_col)
            else col))"

definition trace_local_color ::
  "(Ray \<Rightarrow> real \<Rightarrow> bool) \<Rightarrow> Scene \<Rightarrow> Ray \<Rightarrow> real \<Rightarrow> int \<Rightarrow> Vec3"
where
  "trace_local_color shadow sc ray t hit_idx =
     (let sphere = spheres sc ! nat hit_idx;
          hit_point = Ray_at ray t;
          normal = Sphere_getNormal sphere hit_point;
          view_dir = Vec3_normalize (Vec3_sub (origin ray) hit_point);
          col = Vec3_mul (color (material sphere)) (ambient (material sphere))
      in trace_lights shadow sphere hit_point normal view_dir (lights sc) col)"

definition trace_reflect_ray :: "Scene \<Rightarrow> Ray \<Rightarrow> real \<Rightarrow> int \<Rightarrow> Ray" where
  "trace_reflect_ray sc ray t hit_idx =
     (let sphere = spheres sc ! nat hit_idx;
          hit_point = Ray_at ray t;
          normal = Sphere_getNormal sphere hit_point;
          view_dir = Vec3_normalize (Vec3_sub (origin ray) hit_point);
          reflect_dir = Vec3_reflect (Vec3_mul view_dir (- 1)) normal
      in Ray_new hit_point reflect_dir)"

definition shadow_test :: "Scene \<Rightarrow> Ray \<Rightarrow> real \<Rightarrow> bool" where
  \<comment> \<open>raytracer.cpp line 190: \<^verbatim>\<open>intersectShadow(Ray(hit_point, light_dir), light_distance)\<close>\<close>
  "shadow_test sc shadow_ray light_distance = Scene_intersectShadow sc shadow_ray light_distance"

definition shadow_test_main :: "Scene \<Rightarrow> Ray \<Rightarrow> real \<Rightarrow> bool" where
  \<comment> \<open>main.cpp lines 155-158: \<^verbatim>\<open>intersect(shadow_ray, shadow_t, shadow_idx)\<close>; the distance
      to the light is not computed there and takes no part in the test\<close>
  "shadow_test_main sc shadow_ray light_distance = fst (Scene_intersect_main sc shadow_ray)"

function Scene_trace :: "Scene \<Rightarrow> Ray \<Rightarrow> int \<Rightarrow> Vec3" where
  \<comment> \<open>raytracer.cpp lines 166-219\<close>
  "Scene_trace sc ray depth =
     (if depth > 3 then background sc
      else
        case Scene_intersect sc ray of
          (found, t, hit_idx) \<Rightarrow>
            if \<not> found then background sc
            else
              let col = trace_local_color (shadow_test sc) sc ray t hit_idx;
                  refl = reflectivity (material (spheres sc ! nat hit_idx))
              in if refl > 0 \<and> depth < 3 then
                   Vec3_add (Vec3_mul col (1 - refl))
                     (Vec3_mul (Scene_trace sc (trace_reflect_ray sc ray t hit_idx) (depth + 1)) refl)
                 else col)"
  by pat_completeness auto
termination
  by (relation "measure (\<lambda>(sc, ray, depth). nat (3 - depth))") auto

declare Scene_trace.simps [simp del]

function Scene_trace_main :: "Scene \<Rightarrow> Ray \<Rightarrow> int \<Rightarrow> Vec3" where
  \<comment> \<open>main.cpp lines 132-183\<close>
  "Scene_trace_main sc ray depth =
     (if depth > 3 then background sc
      else
        case Scene_intersect_main sc ray of
          (found, t, hit_idx) \<Rightarrow>
            if \<not> found then background sc
            else
              let col = trace_local_color (shadow_test_main sc) sc ray t hit_idx;
                  refl = reflectivity (material (spheres sc ! nat hit_idx))
              in if refl > 0 \<and> depth < 3 then
                   Vec3_add col
                     (Vec3_mul (Scene_trace_main sc (trace_reflect_ray sc ray t hit_idx) (depth + 1)) refl)
                 else col)"
  by pat_completeness auto
termination
  by (relation "measure (\<lambda>(sc, ray, depth). nat (3 - depth))") auto

declare Scene_trace_main.simps [simp del]

section \<open>Camera, clamp and the renderer\<close>

record Camera =
  position :: Vec3
  target :: Vec3
  up :: Vec3
  fov :: real

definition Camera_getRay :: "Camera \<Rightarrow> real \<Rightarrow> real \<Rightarrow> real \<Rightarrow> Ray" where
  "Camera_getRay cam u v aspect_ratio =
     (let theta = fov cam * pi / 180;
          h = tan (theta / 2);
          viewport_height = 2 * h;
          viewport_width = aspect_ratio * viewport_height;
          w = Vec3_normalize (Vec3_sub (position cam) (target cam));
          u_vec = Vec3_normalize (Vec3_cross (up cam) w);
          v_vec = Vec3_cross w u_vec;
          horizontal = Vec3_mul u_vec viewport_width;
          vertical = Vec3_mul v_vec viewport_height;
          lower_left =
            Vec3_sub (Vec3_sub (Vec3_sub (position cam) (Vec3_div horizontal 2))
              (Vec3_div vertical 2)) w;
          dir =
            Vec3_sub (Vec3_add (Vec3_add lower_left (Vec3_mul horizontal u))
              (Vec3_mul vertical v)) (position cam)
      in Ray_new (position cam) dir)"

definition clamp :: "Vec3 \<Rightarrow> Vec3" where
  "clamp c = Vec3 (min 1 (max 0 (vec_x c))) (min 1 (max 0 (vec_y c))) (min 1 (max 0 (vec_z c)))"

definition to_Uint8 :: "real \<Rightarrow> 8 word" where
  \<comment> \<open>the conversion \<^verbatim>\<open>Uint8(v)\<close>: the fraction is dropped (rounding toward zero) and the
      integer kept modulo 256; C++ leaves the conversion undefined outside 0..255\<close>
  "to_Uint8 v = word_of_int (if v \<ge> 0 then \<lfloor>v\<rfloor> else \<lceil>v\<rceil>)"

definition pack_pixel :: "8 word \<Rightarrow> 8 word \<Rightarrow> 8 word \<Rightarrow> 32 word" where
  \<comment> \<open>\<^verbatim>\<open>(0xFF << 24) | (r << 16) | (g << 8) | b\<close>, stored into a \<^verbatim>\<open>Uint32\<close>\<close>
  "pack_pixel r g b =
     push_bit 24 (0xFF :: 32 word) OR push_bit 16 (ucast r) OR push_bit 8 (ucast g) OR ucast b"

text \<open>
  \<^verbatim>\<open>Renderer::render\<close> has the same loop body in both files (raytracer.cpp lines 329-342,
  main.cpp lines 288-301), up to the \<^verbatim>\<open>trace\<close> it calls, the parameter \<open>tr\<close>.
  \<open>render_pixel\<close> is the value the body stores for column \<open>i\<close> of row \<open>j\<close>.
\<close>

definition render_pixel ::
  "(Scene \<Rightarrow> Ray \<Rightarrow> int \<Rightarrow> Vec3) \<Rightarrow> Scene \<Rightarrow> Camera \<Rightarrow> int \<Rightarrow> int \<Rightarrow> int \<Rightarrow> int \<Rightarrow> 32 word"
where
  "render_pixel tr sc cam width height i j =
     (let aspect_ratio = real_of_int width / real_of_int height;
          u = real_of_int i / real_of_int (width - 1);
          v = real_of_int (height - 1 - j) / real_of_int (height - 1);
          ray = Camera_getRay cam u v aspect_ratio;
          pixel_color = clamp (tr sc ray 0);
          r = to_Uint8 (255.99 * vec_x pixel_color);
          g = to_Uint8 (255.99 * vec_y pixel_color);
          b = to_Uint8 (255.99 * vec_z pixel_color)
      in pack_pixel r g b)"

definition store_pixel ::
  "(Scene \<Rightarrow> Ray \<Rightarrow> int \<Rightarrow> Vec3) \<Rightarrow> Scene \<Rightarrow> Camera \<Rightarrow> int \<Rightarrow> int \<Rightarrow> int \<times> int \<Rightarrow>
     32 word list \<Rightarrow> 32 word list"
where
  \<comment> \<open>the assignment \<^verbatim>\<open>pixels[j * width + i] = ...\<close>; the buffer has \<open>width * height\<close>
      cells and the loops keep the index inside it\<close>
  "store_pixel tr sc cam width height ij pixels =
     (case ij of (i, j) \<Rightarrow>
        pixels[nat (j * width + i) := render_pixel tr sc cam width height i j])"

function render_row ::
  "(Scene \<Rightarrow> Ray \<Rightarrow> int \<Rightarrow> Vec3) \<Rightarrow> Scene \<Rightarrow> Camera \<Rightarrow> int \<Rightarrow> int \<Rightarrow> int \<Rightarrow> int \<Rightarrow>
     32 word list \<Rightarrow> 32 word list"
where
  \<comment> \<open>the inner loop \<^verbatim>\<open>for (int i = 0; i < width; i++)\<close> of row \<open>j\<close>, from column \<open>i\<close> on\<close>
  "render_row tr sc cam width height j i pixels =
     (if i < width then
        render_row tr sc cam width height j (i + 1)
          (store_pixel tr sc cam width height (i, j) pixels)
      else pixels)"
  by pat_completeness auto
termination
  by (relation "measure (\<lambda>(tr, sc, cam, width, height, j, i, pixels). nat (width - i))") auto

declare render_row.simps [simp del]

function render_rows ::
  "(Scene \<Rightarrow> Ray \<Rightarrow> int \<Rightarrow> Vec3) \<Rightarrow> Scene \<Rightarrow> Camera \<Rightarrow> int \<Rightarrow> int \<Rightarrow> int \<Rightarrow>
     32 word list \<Rightarrow> 32 word list"
where
  \<comment> \<open>the outer loop \<^verbatim>\<open>for (int j = 0; j < height; j++)\<close> run by one worker, from row \<open>j\<close> on\<close>
  "render_rows tr sc cam width height j pixels =
     (if j < height then
        render_rows tr sc cam width height (j + 1)
          (render_row tr sc cam width height j 0 pixels)
      else pixels)"
  by pat_completeness auto
termination
  by (relation "measure (\<lambda>(tr, sc, cam, width, height, j, pixels). nat (height - j))") auto

declare render_rows.simps [simp del]

definition Renderer_render :: "Scene \<Rightarrow> Camera \<Rightarrow> int \<Rightarrow> int \<Rightarrow> 32 word list \<Rightarrow> 32 word list" where
  \<comment> \<open>raytracer.cpp lines 309-343; the last argument is the content of the freshly
      allocated \<^verbatim>\<open>pixels\<close> array, which C++ leaves uninitialised\<close>
  "Renderer_render sc cam width height pixels = render_rows Scene_trace sc cam width height 0 pixels"

definition Renderer_render_main :: "Scene \<Rightarrow> Camera \<Rightarrow> int \<Rightarrow> int \<Rightarrow> 32 word list \<Rightarrow> 32 word list" where
  \<comment> \<open>main.cpp lines 272-302\<close>
  "Renderer_render_main sc cam width height pixels =
     render_rows Scene_trace_main sc cam width height 0 pixels"

text \<open>
  The \<^verbatim>\<open>#pragma omp parallel for\<close> hands the rows to several workers.  The workers share
  only the read-only scene and camera and the output buffer, so a run with any number of
  workers is determined by the order in which the pixel stores reach the buffer: a list
  \<open>sched\<close> of the cells \<open>(i, j)\<close> in that order.
\<close>

definition render_sched ::
  "(Scene \<Rightarrow> Ray \<Rightarrow> int \<Rightarrow> Vec3) \<Rightarrow> Scene \<Rightarrow> Camera \<Rightarrow> int \<Rightarrow> int \<Rightarrow> (int \<times> int) list \<Rightarrow>
     32 word list \<Rightarrow> 32 word list"
where
  "render_sched tr sc cam width height sched pixels =
     fold (store_pixel tr sc cam width height) sched pixels"

definition is_schedule :: "int \<Rightarrow> int \<Rightarrow> (int \<times> int) list \<Rightarrow> bool" where
  \<comment> \<open>every cell of the grid is stored, and nothing outside the grid\<close>
  "is_schedule width height sched \<longleftrightarrow>
     set sched = {0..<width} \<times> {0..<height}"

section \<open>IEEE 754 binary64 arithmetic\<close>

text \<open>
  A \<^verbatim>\<open>double\<close> of the binary64 reading: a finite value, one of the two infinities, or
  NaN.  The two zeros are not told apart.  That loses nothing here: comparisons and
  \<^verbatim>\<open>sqrt\<close> treat them alike, and every divisor of the modelled code that can be zero is
  \<open>+0\<close> when it is (a computed length and a sum of squares are never \<open>-0\<close>, and
  \<^verbatim>\<open>double(0)\<close> of an \<^verbatim>\<open>int\<close> is \<open>+0\<close>), so the sign of an infinite quotient is the
  sign of its numerator.
\<close>

datatype double = Fin real | PInf | NInf | NaN

definition pow2 :: "int \<Rightarrow> real" where
  "pow2 e = (if 0 \<le> e then 2 ^ nat e else 1 / 2 ^ nat (- e))"

definition binade :: "real \<Rightarrow> int" where
  \<comment> \<open>the exponent \<open>e\<close> with \<open>2\<^sup>e \<le> |x| < 2\<^sup>e\<^sup>+\<^sup>1\<close>\<close>
  "binade x = \<lfloor>log 2 \<bar>x\<bar>\<rfloor>"

definition ulp :: "real \<Rightarrow> real" where
  \<comment> \<open>the spacing of the binary64 values around \<open>x\<close>: 53 significant bits, and the fixed
      spacing \<open>2\<^sup>-\<^sup>1\<^sup>0\<^sup>7\<^sup>4\<close> of the subnormal range below \<open>2\<^sup>-\<^sup>1\<^sup>0\<^sup>2\<^sup>2\<close>\<close>
  "ulp x = pow2 (max (binade x) (- 1022) - 52)"

definition round_even :: "real \<Rightarrow> int" where
  \<comment> \<open>the nearest integer, a tie going to the even one\<close>
  "round_even y =
     (let f = \<lfloor>y\<rfloor>
      in if y - of_int f < 1 / 2 \<or> (y - of_int f = 1 / 2 \<and> even f) then f else f + 1)"

definition rnd :: "real \<Rightarrow> double" where
  \<comment> \<open>rounding to nearest, ties to even; a result of magnitude \<open>2\<^sup>1\<^sup>0\<^sup>2\<^sup>4\<close> or more is an
      infinity\<close>
  "rnd x =
     (if x = 0 then Fin 0
      else
        let m = of_int (round_even (\<bar>x\<bar> / ulp x)) * ulp x
        in if pow2 1024 \<le> m then (if 0 < x then PInf else NInf) else Fin (sgn x * m))"

text \<open>
  The operations \<^verbatim>\<open>-x\<close>, \<^verbatim>\<open>+\<close>, \<^verbatim>\<open>-\<close>, \<^verbatim>\<open>*\<close>, \<^verbatim>\<open>/\<close>, \<^verbatim>\<open>sqrt\<close> and \<^verbatim>\<open><\<close> on doubles.  Each
  rounds the exact result once (no fused multiply-add, no extended precision); the
  clauses for infinities and NaN are those of IEEE 754.
\<close>

fun dneg :: "double \<Rightarrow> double" where
  "dneg (Fin x) = Fin (- x)"
| "dneg PInf = NInf"
| "dneg NInf = PInf"
| "dneg NaN = NaN"

fun dadd :: "double \<Rightarrow> double \<Rightarrow> double" where
  "dadd (Fin x) (Fin y) = rnd (x + y)"
| "dadd NaN b = NaN"
| "dadd a NaN = NaN"
| "dadd PInf NInf = NaN"
| "dadd NInf PInf = NaN"
| "dadd PInf b = PInf"
| "dadd a PInf = PInf"
| "dadd NInf b = NInf"
| "dadd a NInf = NInf"

definition dsub :: "double \<Rightarrow> double \<Rightarrow> double" where
  "dsub a b = dadd a (dneg b)"

fun dmul :: "double \<Rightarrow> double \<Rightarrow> double" where
  "dmul (Fin x) (Fin y) = rnd (x * y)"
| "dmul NaN b = NaN"
| "dmul a NaN = NaN"
| "dmul (Fin x) PInf = (if x = 0 then NaN else if 0 < x then PInf else NInf)"
| "dmul (Fin x) NInf = (if x = 0 then NaN else if 0 < x then NInf else PInf)"
| "dmul PInf (Fin y) = (if y = 0 then NaN else if 0 < y then PInf else NInf)"
| "dmul NInf (Fin y) = (if y = 0 then NaN else if 0 < y then NInf else PInf)"
| "dmul PInf PInf = PInf"
| "dmul PInf NInf = NInf"
| "dmul NInf PInf = NInf"
| "dmul NInf NInf = PInf"

fun ddiv :: "double \<Rightarrow> double \<Rightarrow> double" where
  "ddiv (Fin x) (Fin y) =
     (if y = 0 then (if x = 0 then NaN else if 0 < x then PInf else NInf) else rnd (x / y))"
| "ddiv NaN b = NaN"
| "ddiv a NaN = NaN"
| "ddiv (Fin x) PInf = Fin 0"
| "ddiv (Fin x) NInf = Fin 0"
| "ddiv PInf (Fin y) = (if 0 \<le> y then PInf else NInf)"
| "ddiv NInf (Fin y) = (if 0 \<le> y then NInf else PInf)"
| "ddiv PInf PInf = NaN"
| "ddiv PInf NInf = NaN"
| "ddiv NInf PInf = NaN"
| "ddiv NInf NInf = NaN"

fun dsqrt :: "double \<Rightarrow> double" where
  "dsqrt (Fin x) = (if x < 0 then NaN else rnd (sqrt x))"
| "dsqrt PInf = PInf"
| "dsqrt NInf = NaN"
| "dsqrt NaN = NaN"

fun dless :: "double \<Rightarrow> double \<Rightarrow> bool" where
  "dless (Fin x) (Fin y) \<longleftrightarrow> x < y"
| "dless NaN b \<longleftrightarrow> False"
| "dless a NaN \<longleftrightarrow> False"
| "dless PInf b \<longleftrightarrow> False"
| "dless a NInf \<longleftrightarrow> False"
| "dless NInf b \<longleftrightarrow> True"
| "dless a PInf \<longleftrightarrow> True"

definition dmax :: "double \<Rightarrow> double \<Rightarrow> double" where
  \<comment> \<open>\<^verbatim>\<open>std::max(a, b)\<close>, which is \<^verbatim>\<open>(a < b) ? b : a\<close>\<close>
  "dmax a b = (if dless a b then b else a)"

definition dmin :: "double \<Rightarrow> double \<Rightarrow> double" where
  \<comment> \<open>\<^verbatim>\<open>std::min(a, b)\<close>, which is \<^verbatim>\<open>(b < a) ? b : a\<close>\<close>
  "dmin a b = (if dless b a then b else a)"

definition lit :: "real \<Rightarrow> double" where
  \<comment> \<open>a decimal literal of the source, such as \<^verbatim>\<open>0.001\<close> or \<^verbatim>\<open>255.99\<close>\<close>
  "lit q = rnd q"

definition double_of_int :: "int \<Rightarrow> double" where
  \<comment> \<open>the conversion \<^verbatim>\<open>double(i)\<close> of an \<^verbatim>\<open>int\<close>\<close>
  "double_of_int i = rnd (of_int i)"

section \<open>The binary64 reading of vectors, rays, spheres and the scene queries\<close>

text \<open>
  The same source text as in the sections above (\<^verbatim>\<open>Vec3\<close>, \<^verbatim>\<open>Ray\<close>, \<^verbatim>\<open>Sphere\<close>, the two
  \<^verbatim>\<open>Sphere::intersect\<close>, \<^verbatim>\<open>Scene::intersect\<close> and \<^verbatim>\<open>Scene::intersectShadow\<close>), operation
  by operation in the order C++ evaluates it: \<^verbatim>\<open>x * v.x + y * v.y + z * v.z\<close> is
  \<^verbatim>\<open>(x * v.x + y * v.y) + z * v.z\<close>, and \<^verbatim>\<open>4 * a * c\<close> is \<^verbatim>\<open>(4 * a) * c\<close>.
\<close>

datatype dVec3 = dVec3 (dvec_x: double) (dvec_y: double) (dvec_z: double)

definition dVec3_add :: "dVec3 \<Rightarrow> dVec3 \<Rightarrow> dVec3" where
  "dVec3_add a v =
     dVec3 (dadd (dvec_x a) (dvec_x v)) (dadd (dvec_y a) (dvec_y v)) (dadd (dvec_z a) (dvec_z v))"

definition dVec3_sub :: "dVec3 \<Rightarrow> dVec3 \<Rightarrow> dVec3" where
  "dVec3_sub a v =
     dVec3 (dsub (dvec_x a) (dvec_x v)) (dsub (dvec_y a) (dvec_y v)) (dsub (dvec_z a) (dvec_z v))"

definition dVec3_mul :: "dVec3 \<Rightarrow> double \<Rightarrow> dVec3" where
  "dVec3_mul a t = dVec3 (dmul (dvec_x a) t) (dmul (dvec_y a) t) (dmul (dvec_z a) t)"

definition dVec3_div :: "dVec3 \<Rightarrow> double \<Rightarrow> dVec3" where
  "dVec3_div a t = dVec3 (ddiv (dvec_x a) t) (ddiv (dvec_y a) t) (ddiv (dvec_z a) t)"

definition dVec3_dot :: "dVec3 \<Rightarrow> dVec3 \<Rightarrow> double" where
  "dVec3_dot a v =
     dadd (dadd (dmul (dvec_x a) (dvec_x v)) (dmul (dvec_y a) (dvec_y v)))
       (dmul (dvec_z a) (dvec_z v))"

definition dVec3_lengthSquared :: "dVec3 \<Rightarrow> double" where
  "dVec3_lengthSquared a =
     dadd (dadd (dmul (dvec_x a) (dvec_x a)) (dmul (dvec_y a) (dvec_y a)))
       (dmul (dvec_z a) (dvec_z a))"

definition dVec3_length :: "dVec3 \<Rightarrow> double" where
  "dVec3_length a =
     dsqrt (dadd (dadd (dmul (dvec_x a) (dvec_x a)) (dmul (dvec_y a) (dvec_y a)))
       (dmul (dvec_z a) (dvec_z a)))"

definition dVec3_normalize :: "dVec3 \<Rightarrow> dVec3" where
  \<comment> \<open>\<^verbatim>\<open>len > 0 ? *this / len : Vec3(0, 0, 0)\<close>\<close>
  "dVec3_normalize a =
     (let len = dVec3_length a
      in if dless (Fin 0) len then dVec3_div a len else dVec3 (Fin 0) (Fin 0) (Fin 0))"

record dRay =
  d_origin :: dVec3
  d_direction :: dVec3

definition dRay_new :: "dVec3 \<Rightarrow> dVec3 \<Rightarrow> dRay" where
  \<comment> \<open>the constructor \<^verbatim>\<open>Ray(o, d) : origin(o), direction(d.normalize())\<close>\<close>
  "dRay_new orig d = \<lparr>d_origin = orig, d_direction = dVec3_normalize d\<rparr>"

record dMaterial =
  d_color :: dVec3
  d_ambient :: double
  d_diffuse :: double
  d_specular :: double
  d_shininess :: double
  d_reflectivity :: double

record dSphere =
  d_center :: dVec3
  d_radius :: double
  d_material :: dMaterial

record dLight =
  d_light_position :: dVec3
  d_light_color :: dVec3
  d_intensity :: double

record dScene =
  d_spheres :: "dSphere list"
  d_lights :: "dLight list"
  d_background :: dVec3

definition dSphere_intersect :: "dSphere \<Rightarrow> dRay \<Rightarrow> double option" where
  \<comment> \<open>raytracer.cpp lines 75-106, the half-b form; \<open>Some t\<close> is \<^verbatim>\<open>return true\<close> with the
      out-parameter set to \<open>t\<close>\<close>
  "dSphere_intersect s ray =
     (let oc = dVec3_sub (d_origin ray) (d_center s);
          b_half = dVec3_dot oc (d_direction ray);
          c = dsub (dVec3_lengthSquared oc) (dmul (d_radius s) (d_radius s));
          discriminant = dsub (dmul b_half b_half) c
      in if dless discriminant (Fin 0) then None
         else
           let sqrt_disc = dsqrt discriminant;
               t1 = dsub (dneg b_half) sqrt_disc
           in if dless (lit 0.001) t1 then Some t1
              else
                let t2 = dadd (dneg b_half) sqrt_disc
                in if dless (lit 0.001) t2 then Some t2 else None)"

definition dSphere_intersect_main :: "dSphere \<Rightarrow> dRay \<Rightarrow> double option" where
  \<comment> \<open>main.cpp lines 68-89, the general quadratic\<close>
  "dSphere_intersect_main s ray =
     (let oc = dVec3_sub (d_origin ray) (d_center s);
          a = dVec3_dot (d_direction ray) (d_direction ray);
          b = dmul (Fin 2) (dVec3_dot oc (d_direction ray));
          c = dsub (dVec3_dot oc oc) (dmul (d_radius s) (d_radius s));
          discriminant = dsub (dmul b b) (dmul (dmul (Fin 4) a) c)
      in if dless discriminant (Fin 0) then None
         else
           let t1 = ddiv (dsub (dneg b) (dsqrt discriminant)) (dmul (Fin 2) a);
               t2 = ddiv (dadd (dneg b) (dsqrt discriminant)) (dmul (Fin 2) a)
           in if dless (lit 0.001) t1 then Some t1
              else if dless (lit 0.001) t2 then Some t2
              else None)"

function d_intersect_loop ::
  "(dSphere \<Rightarrow> dRay \<Rightarrow> double option) \<Rightarrow> dSphere list \<Rightarrow> dRay \<Rightarrow> nat \<Rightarrow> double \<times> int \<Rightarrow>
     double \<times> int"
where
  \<comment> \<open>the loop of \<^verbatim>\<open>Scene::intersect\<close> from index \<open>i\<close> on, with the current
      \<^verbatim>\<open>closest_t\<close> and \<^verbatim>\<open>hit_idx\<close>\<close>
  "d_intersect_loop isect sps ray i (closest_t, hit_idx) =
     (if i < length sps then
        d_intersect_loop isect sps ray (i + 1)
          (case isect (sps ! i) ray of
             Some t \<Rightarrow> if dless t closest_t then (t, int i) else (closest_t, hit_idx)
           | None \<Rightarrow> (closest_t, hit_idx))
      else (closest_t, hit_idx))"
  by pat_completeness auto
termination
  by (relation "measure (\<lambda>(isect, sps, ray, i, st). length sps - i)") auto

definition dScene_intersect_with ::
  "(dSphere \<Rightarrow> dRay \<Rightarrow> double option) \<Rightarrow> dScene \<Rightarrow> dRay \<Rightarrow> bool \<times> double \<times> int"
where
  \<comment> \<open>\<^verbatim>\<open>Scene::intersect\<close> (raytracer.cpp lines 137-149, main.cpp lines 118-130): the
      returned flag, \<^verbatim>\<open>closest_t\<close> and \<^verbatim>\<open>hit_idx\<close>\<close>
  "dScene_intersect_with isect sc ray =
     (case d_intersect_loop isect (d_spheres sc) ray 0 (Fin DBL_MAX, - 1) of
        (closest_t, hit_idx) \<Rightarrow> (hit_idx \<noteq> - 1, closest_t, hit_idx))"

definition dScene_intersect :: "dScene \<Rightarrow> dRay \<Rightarrow> bool \<times> double \<times> int" where
  "dScene_intersect = dScene_intersect_with dSphere_intersect"

definition dScene_intersect_main :: "dScene \<Rightarrow> dRay \<Rightarrow> bool \<times> double \<times> int" where
  "dScene_intersect_main = dScene_intersect_with dSphere_intersect_main"

fun d_intersectShadow_loop :: "dSphere list \<Rightarrow> dRay \<Rightarrow> double \<Rightarrow> bool" where
  \<comment> \<open>the range-for loop of \<^verbatim>\<open>Scene::intersectShadow\<close> (raytracer.cpp lines 152-161)
      over the spheres that are left\<close>
  "d_intersectShadow_loop [] ray max_distance = False"
| "d_intersectShadow_loop (sphere # rest) ray max_distance =
     (case dSphere_intersect sphere ray of
        Some t \<Rightarrow>
          if dless (lit 0.001) t \<and> dless t max_distance then True
          else d_intersectShadow_loop rest ray max_distance
      | None \<Rightarrow> d_intersectShadow_loop rest ray max_distance)"

definition dScene_intersectShadow :: "dScene \<Rightarrow> dRay \<Rightarrow> double \<Rightarrow> bool" where
  "dScene_intersectShadow sc ray max_distance =
     d_intersectShadow_loop (d_spheres sc) ray max_distance"

section \<open>The binary64 reading of the pixel conversion\<close>

text \<open>
  The loop body of \<^verbatim>\<open>Renderer::render\<close> (raytracer.cpp lines 329-341, main.cpp lines
  288-300).  \<^verbatim>\<open>Camera::getRay\<close> and \<^verbatim>\<open>Scene::trace\<close> call \<^verbatim>\<open>tan\<close> and \<^verbatim>\<open>pow\<close> of
  \<^verbatim>\<open><cmath>\<close>, whose results IEEE 754 does not fix; they enter as the parameters
  \<open>getRay\<close> and \<open>tr\<close>, and what is said of the pixel conversion holds for whatever
  colour they produce, NaN and the infinities included.
\<close>

definition dclamp :: "dVec3 \<Rightarrow> dVec3" where
  \<comment> \<open>raytracer.cpp lines 222-228: \<^verbatim>\<open>std::min(1.0, std::max(0.0, c.x))\<close> per channel\<close>
  "dclamp c =
     dVec3 (dmin (Fin 1) (dmax (Fin 0) (dvec_x c)))
       (dmin (Fin 1) (dmax (Fin 0) (dvec_y c)))
       (dmin (Fin 1) (dmax (Fin 0) (dvec_z c)))"

fun to_Uint8_d :: "double \<Rightarrow> 8 word" where
  \<comment> \<open>the conversion \<^verbatim>\<open>Uint8(v)\<close>: the fraction is dropped (rounding toward zero).  C++
      leaves the conversion undefined for a value outside 0..255, an infinity or NaN; the
      model then keeps the integer modulo 256, or 0\<close>
  "to_Uint8_d (Fin v) = word_of_int (if v \<ge> 0 then \<lfloor>v\<rfloor> else \<lceil>v\<rceil>)"
| "to_Uint8_d PInf = 0"
| "to_Uint8_d NInf = 0"
| "to_Uint8_d NaN = 0"

definition render_pixel_d ::
  "(double \<Rightarrow> double \<Rightarrow> double \<Rightarrow> dRay) \<Rightarrow> (dRay \<Rightarrow> dVec3) \<Rightarrow> int \<Rightarrow> int \<Rightarrow> int \<Rightarrow> int \<Rightarrow>
     32 word"
where
  "render_pixel_d getRay tr width height i j =
     (let aspect_ratio = ddiv (double_of_int width) (double_of_int height);
          u = ddiv (double_of_int i) (double_of_int (width - 1));
          v = ddiv (double_of_int (height - 1 - j)) (double_of_int (height - 1));
          ray = getRay u v aspect_ratio;
          pixel_color = dclamp (tr ray);
          r = to_Uint8_d (dmul (lit 255.99) (dvec_x pixel_color));
          g = to_Uint8_d (dmul (lit 255.99) (dvec_y pixel_color));
          b = to_Uint8_d (dmul (lit 255.99) (dvec_z pixel_color))
      in pack_pixel r g b)"

definition store_pixel_d ::
  "(double \<Rightarrow> double \<Rightarrow> double \<Rightarrow> dRay) \<Rightarrow> (dRay \<Rightarrow> dVec3) \<Rightarrow> int \<Rightarrow> int \<Rightarrow> int \<times> int \<Rightarrow>
     32 word list \<Rightarrow> 32 word list"
where
  \<comment> \<open>the assignment \<^verbatim>\<open>pixels[j * width + i] = ...\<close>\<close>
  "store_pixel_d getRay tr width height ij pixels =
     (case ij of (i, j) \<Rightarrow>
        pixels[nat (j * width + i) := render_pixel_d getRay tr width height i j])"

function render_row_d ::
  "(double \<Rightarrow> double \<Rightarrow> double \<Rightarrow> dRay) \<Rightarrow> (dRay \<Rightarrow> dVec3) \<Rightarrow> int \<Rightarrow> int \<Rightarrow> int \<Rightarrow> int \<Rightarrow>
     32 word list \<Rightarrow> 32 word list"
where
  \<comment> \<open>the inner loop \<^verbatim>\<open>for (int i = 0; i < width; i++)\<close> of row \<open>j\<close>, from column \<open>i\<close> on\<close>
  "render_row_d getRay tr width height j i pixels =
     (if i < width then
        render_row_d getRay tr width height j (i + 1)
          (store_pixel_d getRay tr width height (i, j) pixels)
      else pixels)"
  by pat_completeness auto
termination
  by (relation "measure (\<lambda>(getRay, tr, width, height, j, i, pixels). nat (width - i))") auto

declare render_row_d.simps [simp del]

function render_rows_d ::
  "(double \<Rightarrow> double \<Rightarrow> double \<Rightarrow> dRay) \<Rightarrow> (dRay \<Rightarrow> dVec3) \<Rightarrow> int \<Rightarrow> int \<Rightarrow> int \<Rightarrow>
     32 word list \<Rightarrow> 32 word list"
where
  \<comment> \<open>the outer loop \<^verbatim>\<open>for (int j = 0; j < height; j++)\<close>, from row \<open>j\<close> on\<close>
  "render_rows_d getRay tr width height j pixels =
     (if j < height then
        render_rows_d getRay tr width height (j + 1)
          (render_row_d getRay tr width height j 0 pixels)
      else pixels)"
  by pat_completeness auto
termination
  by (relation "measure (\<lambda>(getRay, tr, width, height, j, pixels). nat (height - j))") auto

declare render_rows_d.simps [simp del]

definition dRenderer_render ::
  "(double \<Rightarrow> double \<Rightarrow> double \<Rightarrow> dRay) \<Rightarrow> (dRay \<Rightarrow> dVec3) \<Rightarrow> int \<Rightarrow> int \<Rightarrow> 32 word list \<Rightarrow>
     32 word list"
where
  "dRenderer_render getRay tr width height pixels = render_rows_d getRay tr width height 0 pixels"

section \<open>Specification-side notions and example values\<close>

text \<open>
  The ray-sphere quadratic as the specification writes it (section 4.2):
  \<open>a t\<^sup>2 + b t + c = 0\<close> with \<open>a = direction \<cdot> direction\<close>, \<open>b = 2 (origin - center) \<cdot> direction\<close>
  and \<open>c = |origin - center|\<^sup>2 - radius\<^sup>2\<close>.  A root \<open>t\<close> is a parameter at which the
  ray meets the sphere's surface (lemma \<open>ray_sphere_root_geometric\<close> below).
\<close>

definition ray_sphere_root :: "Sphere \<Rightarrow> Ray \<Rightarrow> real \<Rightarrow> bool" where
  "ray_sphere_root s ray t \<longleftrightarrow>
     (let oc = Vec3_sub (origin ray) (center s);
          a = Vec3_dot (direction ray) (direction ray);
          b = 2 * Vec3_dot oc (direction ray);
          c = Vec3_dot oc oc - radius s * radius s
      in a * t * t + b * t + c = 0)"

text \<open>
  Example values: the first material and sphere of \<^verbatim>\<open>main\<close> in raytracer.cpp (lines 386
  and 394), and a sphere of radius 2 around the origin (the inside-the-sphere test of
  section 8 of the specification).
\<close>

definition bubblegum :: Material where
  "bubblegum = \<lparr>color = Vec3 1 0.4 0.7, ambient = 0.2, diffuse = 0.7, specular = 0.6,
     shininess = 64, reflectivity = 0.3\<rparr>"

definition candy_sphere :: Sphere where
  "candy_sphere = \<lparr>center = Vec3 0 0 0, radius = 1, material = bubblegum\<rparr>"

definition wide_sphere :: Sphere where
  "wide_sphere = \<lparr>center = Vec3 0 0 0, radius = 2, material = bubblegum\<rparr>"

text \<open>Example scenes: default background, no lights.\<close>

definition one_sphere_scene :: Scene where
  "one_sphere_scene = \<lparr>spheres = [candy_sphere], lights = [], background = Vec3 0.1 0.1 0.15\<rparr>"

definition tie_scene :: Scene where
  "tie_scene = \<lparr>spheres = [candy_sphere, wide_sphere, candy_sphere, wide_sphere], lights = [],
     background = Vec3 0.1 0.1 0.15\<rparr>"

text \<open>
  The two ways of combining the local colour with the reflected colour: the convex blend
  of the specification (section 4.4) and the additive combination of main.cpp (line 179).
  \<open>in_unit_range\<close> says that every channel of a colour lies in \<open>[0, 1]\<close>.
\<close>

definition convex_blend :: "Vec3 \<Rightarrow> Vec3 \<Rightarrow> real \<Rightarrow> Vec3" where
  "convex_blend localColor reflectedColor k =
     Vec3_add (Vec3_mul localColor (1 - k)) (Vec3_mul reflectedColor k)"

definition additive_combine :: "Vec3 \<Rightarrow> Vec3 \<Rightarrow> real \<Rightarrow> Vec3" where
  "additive_combine localColor reflectedColor k = Vec3_add localColor (Vec3_mul reflectedColor k)"

definition in_unit_range :: "Vec3 \<Rightarrow> bool" where
  "in_unit_range c \<longleftrightarrow>
     0 \<le> vec_x c \<and> vec_x c \<le> 1 \<and> 0 \<le> vec_y c \<and> vec_y c \<le> 1 \<and> 0 \<le> vec_z c \<and> vec_z c \<le> 1"

text \<open>A fully mirrored sphere (reflectivity 1, diffuse 0) and the scene that holds it.\<close>

definition mirror :: Material where
  "mirror = \<lparr>color = Vec3 1 1 1, ambient = 0, diffuse = 0, specular = 0, shininess = 1,
     reflectivity = 1\<rparr>"

definition mirror_scene :: Scene where
  "mirror_scene = \<lparr>spheres = [\<lparr>center = Vec3 0 0 0, radius = 1, material = mirror\<rparr>],
     lights = [], background = Vec3 0.1 0.1 0.15\<rparr>"

text \<open>
  The order in which a single worker stores the cells: row by row, each row from column
  0 upwards.
\<close>

definition row_major :: "int \<Rightarrow> int \<Rightarrow> (int \<times> int) list" where
  "row_major width height = concat (map (\<lambda>j. map (\<lambda>i. (i, j)) [0..width - 1]) [0..height - 1])"

text \<open>The camera of \<^verbatim>\<open>main\<close> (raytracer.cpp line 405).\<close>

definition main_camera :: Camera where
  "main_camera = \<lparr>position = Vec3 0 1 5, target = Vec3 0 0 0, up = Vec3 0 1 0, fov = 60\<rparr>"

text \<open>
  The binary64 counterparts.  The closest-hit-based shadow check restricted to the open
  interval from 0.001 to the light distance \<open>d\<close> (specification, section 4.3): run the
  closest-hit query and accept its nearest hit only inside the interval.
\<close>

definition closest_hit_shadow_d :: "dScene \<Rightarrow> dRay \<Rightarrow> double \<Rightarrow> bool" where
  "closest_hit_shadow_d sc ray d =
     (case dScene_intersect sc ray of
        (found, closest_t, hit_idx) \<Rightarrow> found \<and> dless (lit 0.001) closest_t \<and> dless closest_t d)"

text \<open>
  What the closest-hit query delivers with its three results: on a hit, a valid index,
  that sphere's parameter, above 0.001, below no other sphere's parameter, and the
  earliest index attaining it; on a miss, index \<open>-1\<close>, and no sphere reports a parameter
  below \<^verbatim>\<open>DBL_MAX\<close>, the value the scan starts from.
\<close>

definition closest_hit_spec_d ::
  "(dSphere \<Rightarrow> dRay \<Rightarrow> double option) \<Rightarrow> dScene \<Rightarrow> dRay \<Rightarrow> bool \<Rightarrow> double \<Rightarrow> int \<Rightarrow> bool"
where
  "closest_hit_spec_d isect sc ray found closest_t hit_idx \<longleftrightarrow>
     (if found then
        0 \<le> hit_idx \<and> hit_idx < int (length (d_spheres sc))
        \<and> isect (d_spheres sc ! nat hit_idx) ray = Some closest_t
        \<and> dless (lit 0.001) closest_t
        \<and> (\<forall>i<length (d_spheres sc). \<forall>t. isect (d_spheres sc ! i) ray = Some t \<longrightarrow>
              \<not> dless t closest_t \<and> (t = closest_t \<longrightarrow> hit_idx \<le> int i))
      else
        hit_idx = - 1
        \<and> (\<forall>i<length (d_spheres sc). \<forall>t. isect (d_spheres sc ! i) ray = Some t \<longrightarrow>
              \<not> dless t (Fin DBL_MAX)))"

text \<open>The invariant of the closest-hit scan once the spheres below index \<open>i\<close> are done.\<close>

definition closest_inv_d ::
  "(dSphere \<Rightarrow> dRay \<Rightarrow> double option) \<Rightarrow> dSphere list \<Rightarrow> dRay \<Rightarrow> nat \<Rightarrow> double \<times> int \<Rightarrow> bool"
where
  "closest_inv_d isect sps ray i st \<longleftrightarrow>
     (case st of (closest_t, hit_idx) \<Rightarrow>
        (hit_idx = - 1 \<and> closest_t = Fin DBL_MAX
           \<and> (\<forall>k<i. \<forall>t. isect (sps ! k) ray = Some t \<longrightarrow> \<not> dless t (Fin DBL_MAX)))
        \<or> (0 \<le> hit_idx \<and> nat hit_idx < i \<and> isect (sps ! nat hit_idx) ray = Some closest_t
           \<and> dless closest_t (Fin DBL_MAX)
           \<and> (\<forall>k<i. \<forall>t. isect (sps ! k) ray = Some t \<longrightarrow>
                 \<not> dless t closest_t \<and> (t = closest_t \<longrightarrow> nat hit_idx \<le> k))))"






text \<open>
  The pixel byte as the specification words it (section 6): the channel clamped to
  \<open>[0, 1]\<close>, scaled by 255.99, truncated.  A channel above 1 (\<open>+\<infinity>\<close> included) clamps to
  1, a channel that is not above 0 (negative, \<open>-\<infinity>\<close>, or NaN, about which the
  specification is silent and which \<^verbatim>\<open>std::max(0.0, x)\<close> turns into 0) clamps to 0.
\<close>

definition unit_clamp :: "double \<Rightarrow> double" where
  "unit_clamp x = (if dless (Fin 1) x then Fin 1 else if dless (Fin 0) x then x else Fin 0)"

definition sample_byte :: "double \<Rightarrow> int" where
  "sample_byte x = (case dmul (lit 255.99) (unit_clamp x) of Fin q \<Rightarrow> \<lfloor>q\<rfloor> | _ \<Rightarrow> 0)"

text \<open>
  Example values of the binary64 reading: the first material of \<^verbatim>\<open>main\<close>, a sphere of
  radius \<open>r\<close> around the origin, a scene of given spheres with the default background and
  no lights, and the ray from \<open>(x, y, z)\<close> along \<open>(0, 0, -1)\<close>.
\<close>

definition d_bubblegum :: dMaterial where
  "d_bubblegum = \<lparr>d_color = dVec3 (Fin 1) (lit 0.4) (lit 0.7), d_ambient = lit 0.2,
     d_diffuse = lit 0.7, d_specular = lit 0.6, d_shininess = Fin 64, d_reflectivity = lit 0.3\<rparr>"

definition d_sphere :: "real \<Rightarrow> dSphere" where
  "d_sphere r = \<lparr>d_center = dVec3 (Fin 0) (Fin 0) (Fin 0), d_radius = Fin r,
     d_material = d_bubblegum\<rparr>"

definition d_scene :: "dSphere list \<Rightarrow> dScene" where
  "d_scene sps = \<lparr>d_spheres = sps, d_lights = [],
     d_background = dVec3 (lit 0.1) (lit 0.1) (lit 0.15)\<rparr>"

definition down_ray :: "real \<Rightarrow> real \<Rightarrow> real \<Rightarrow> dRay" where
  "down_ray x y z = dRay_new (dVec3 (Fin x) (Fin y) (Fin z)) (dVec3 (Fin 0) (Fin 0) (Fin (- 1)))"


definition diagonal_ray :: dRay where
  "diagonal_ray = dRay_new (dVec3 (Fin (- 1)) (Fin (- 1)) (Fin 1)) (dVec3 (Fin 1) (Fin 1) (Fin 0))"

text \<open>
  A camera and a tracer for the pixel conversion: every pixel gets the same ray, and every
  ray the colour \<open>(0x1.5c037aea306cp-1, 2, -1)\<close>, about 0.6797 in the red channel.
\<close>

definition fixed_getRay :: "double \<Rightarrow> double \<Rightarrow> double \<Rightarrow> dRay" where
  "fixed_getRay u v aspect_ratio = down_ray 0 0 5"

definition fixed_trace :: "dRay \<Rightarrow> dVec3" where
  "fixed_trace ray = dVec3 (Fin (95661248384027 / 140737488355328)) (Fin 2) (Fin (- 1))"

section \<open>Vectors and rays: normalisation\<close>





section \<open>Sphere intersection: root selection and the two algebraic forms\<close>

lemma unit_length_dot: "Vec3_length v = 1 \<longleftrightarrow> Vec3_dot v v = 1"
  by (simp add: Vec3_length_def Vec3_dot_def)

lemma lengthSquared_dot: "Vec3_lengthSquared v = Vec3_dot v v"
  by (simp add: Vec3_lengthSquared_def Vec3_dot_def)

lemma ray_sphere_root_geometric:
  "ray_sphere_root s ray t \<longleftrightarrow>
     Vec3_lengthSquared (Vec3_sub (Ray_at ray t) (center s)) = radius s * radius s"
  by (cases "origin ray"; cases "direction ray"; cases "center s")
     (auto simp: ray_sphere_root_def Let_def Vec3_lengthSquared_def Vec3_sub_def Ray_at_def
        Vec3_add_def Vec3_mul_def Vec3_dot_def algebra_simps)





lemma Sphere_intersect_select:
  "Sphere_intersect s ray =
     (let bh = Vec3_dot (Vec3_sub (origin ray) (center s)) (direction ray);
          c = Vec3_dot (Vec3_sub (origin ray) (center s)) (Vec3_sub (origin ray) (center s))
                - radius s * radius s;
          D = bh * bh - c
      in if D < 0 then None
         else if - bh - sqrt D > 0.001 then Some (- bh - sqrt D)
         else if - bh + sqrt D > 0.001 then Some (- bh + sqrt D) else None)"
  by (simp add: Sphere_intersect_def Let_def lengthSquared_dot)

lemma Sphere_intersect_main_eq:
  assumes "Vec3_length (direction ray) = 1"
  shows "Sphere_intersect_main s ray = Sphere_intersect s ray"
proof -
  have a: "Vec3_dot (direction ray) (direction ray) = 1"
    using assms by (simp add: unit_length_dot)
  define bh where "bh = Vec3_dot (Vec3_sub (origin ray) (center s)) (direction ray)"
  define c where "c = Vec3_dot (Vec3_sub (origin ray) (center s)) (Vec3_sub (origin ray) (center s))
                - radius s * radius s"
  define D where "D = bh * bh - c"
  have disc: "2 * bh * (2 * bh) - 4 * 1 * c = 4 * D" by (simp add: D_def algebra_simps)
  have s4: "sqrt (4 * D) = 2 * sqrt D" unfolding real_sqrt_mult by simp
  have t1: "(- (2 * bh) - sqrt (4 * D)) / (2 * 1) = - bh - sqrt D" by (simp add: s4)
  have t2: "(- (2 * bh) + sqrt (4 * D)) / (2 * 1) = - bh + sqrt D" by (simp add: s4)
  have neg: "4 * D < 0 \<longleftrightarrow> D < 0" by simp
  have "Sphere_intersect_main s ray =
     (if D < 0 then None
         else if - bh - sqrt D > 0.001 then Some (- bh - sqrt D)
         else if - bh + sqrt D > 0.001 then Some (- bh + sqrt D) else None)"
    by (simp only: Sphere_intersect_main_def Let_def a bh_def [symmetric] c_def [symmetric]
          disc t1 t2 neg)
  also have "\<dots> = Sphere_intersect s ray"
    by (simp only: Sphere_intersect_select Let_def bh_def [symmetric] c_def [symmetric]
          D_def [symmetric])
  finally show ?thesis .
qed







lemma example_ray_down: "Vec3_normalize (Vec3 0 0 (- 1)) = Vec3 0 0 (- 1)"
  by (simp add: Vec3_normalize_def Vec3_length_def Vec3_div_def)

section \<open>Example rays and scenes of the exact reading\<close>

lemma candy_hit: "Sphere_intersect candy_sphere (Ray_new (Vec3 0 0 5) (Vec3 0 0 (- 1))) = Some 4"
  by (simp add: Sphere_intersect_def Ray_new_def example_ray_down candy_sphere_def Vec3_sub_def
        Vec3_dot_def Vec3_lengthSquared_def)

lemma wide_hit: "Sphere_intersect wide_sphere (Ray_new (Vec3 0 0 5) (Vec3 0 0 (- 1))) = Some 3"
proof -
  have "sqrt 4 = 2" by simp
  then show ?thesis
  by (simp add: Sphere_intersect_def Ray_new_def example_ray_down wide_sphere_def Vec3_sub_def
        Vec3_dot_def Vec3_lengthSquared_def del: real_sqrt_four)
qed

lemma DBL_MAX_big: "1000 < DBL_MAX"
proof -
  have "(2::real) ^ 1024 = 2 ^ 971 * 2 ^ 53" by (simp add: power_add [symmetric])
  then have "DBL_MAX = 2 ^ 971 * (2 ^ 53 - 1)" by (simp add: DBL_MAX_def algebra_simps)
  moreover have "(1::real) \<le> 2 ^ 971" by simp
  moreover have "(1000::real) < 2 ^ 53 - 1" by simp
  ultimately show ?thesis
    by (smt (verit) mult_le_cancel_right1)
qed

lemma tie_scene_hit:
  "Scene_intersect tie_scene (Ray_new (Vec3 0 0 5) (Vec3 0 0 (- 1))) = (True, 3, 1)"
  using DBL_MAX_big
  by (simp add: Scene_intersect_def Scene_intersect_with_def tie_scene_def candy_hit wide_hit)

lemma candy_miss: "Sphere_intersect candy_sphere (Ray_new (Vec3 5 0 0) (Vec3 0 0 (- 1))) = None"
  by (simp add: Sphere_intersect_def Ray_new_def example_ray_down candy_sphere_def Vec3_sub_def
        Vec3_dot_def Vec3_lengthSquared_def)

lemma wide_miss: "Sphere_intersect wide_sphere (Ray_new (Vec3 5 0 0) (Vec3 0 0 (- 1))) = None"
  by (simp add: Sphere_intersect_def Ray_new_def example_ray_down wide_sphere_def Vec3_sub_def
        Vec3_dot_def Vec3_lengthSquared_def)

lemma tie_scene_miss:
  "Scene_intersect tie_scene (Ray_new (Vec3 5 0 0) (Vec3 0 0 (- 1))) = (False, DBL_MAX, - 1)"
  by (simp add: Scene_intersect_def Scene_intersect_with_def tie_scene_def candy_miss wide_miss)

section \<open>The recursive shading function\<close>

lemma Scene_trace_terminal:
  "depth > 3 \<or> \<not> fst (Scene_intersect sc ray) \<Longrightarrow> Scene_trace sc ray depth = background sc"
  by (subst Scene_trace.simps) (auto split: prod.splits)

lemma Scene_trace_main_terminal:
  "depth > 3 \<or> \<not> fst (Scene_intersect_main sc ray) \<Longrightarrow>
   Scene_trace_main sc ray depth = background sc"
  by (subst Scene_trace_main.simps) (auto split: prod.splits)

text \<open>
  Claim C5: \<^verbatim>\<open>trace\<close> (of either file) returns exactly the scene's background colour
  whenever \<open>depth > 3\<close>, whatever the ray hits, and whenever the closest-hit query finds no
  intersection, whatever the depth.
\<close>

theorem trace_background:
  "(depth > 3 \<longrightarrow> Scene_trace sc ray depth = background sc)
   \<and> (\<not> fst (Scene_intersect sc ray) \<longrightarrow> Scene_trace sc ray depth = background sc)
   \<and> (depth > 3 \<longrightarrow> Scene_trace_main sc ray depth = background sc)
   \<and> (\<not> fst (Scene_intersect_main sc ray) \<longrightarrow> Scene_trace_main sc ray depth = background sc)"
  using Scene_trace_terminal [of depth sc ray] Scene_trace_main_terminal [of depth sc ray]
  by blast

lemma Scene_trace_reflect:
  assumes "\<not> depth > 3" "Scene_intersect sc ray = (True, t, hit_idx)"
    "reflectivity (material (spheres sc ! nat hit_idx)) > 0" "depth < 3"
  shows "Scene_trace sc ray depth =
     convex_blend (trace_local_color (shadow_test sc) sc ray t hit_idx)
       (Scene_trace sc (trace_reflect_ray sc ray t hit_idx) (depth + 1))
       (reflectivity (material (spheres sc ! nat hit_idx)))"
  using assms by (subst Scene_trace.simps) (simp add: convex_blend_def Let_def)

lemma Scene_trace_main_reflect:
  assumes "\<not> depth > 3" "Scene_intersect_main sc ray = (True, t, hit_idx)"
    "reflectivity (material (spheres sc ! nat hit_idx)) > 0" "depth < 3"
  shows "Scene_trace_main sc ray depth =
     additive_combine (trace_local_color (shadow_test_main sc) sc ray t hit_idx)
       (Scene_trace_main sc (trace_reflect_ray sc ray t hit_idx) (depth + 1))
       (reflectivity (material (spheres sc ! nat hit_idx)))"
  using assms by (subst Scene_trace_main.simps) (simp add: additive_combine_def Let_def)

lemma convex_channel:
  fixes x y k :: real
  assumes "0 \<le> x" "x \<le> 1" "0 \<le> y" "y \<le> 1" "0 \<le> k" "k \<le> 1"
  shows "0 \<le> x * (1 - k) + y * k \<and> x * (1 - k) + y * k \<le> 1"
proof
  show "0 \<le> x * (1 - k) + y * k" using assms by simp
  have "x * (1 - k) \<le> 1 * (1 - k)" using assms by (intro mult_right_mono) simp_all
  moreover have "y * k \<le> 1 * k" using assms by (intro mult_right_mono) simp_all
  ultimately show "x * (1 - k) + y * k \<le> 1" by simp
qed

lemma convex_blend_in_range:
  assumes "0 \<le> k" "k \<le> 1" "in_unit_range a" "in_unit_range b"
  shows "in_unit_range (convex_blend a b k)"
  using assms convex_channel [of "vec_x a" "vec_x b" k] convex_channel [of "vec_y a" "vec_y b" k]
    convex_channel [of "vec_z a" "vec_z b" k]
  by (simp add: in_unit_range_def convex_blend_def Vec3_add_def Vec3_mul_def)

lemma additive_out_of_range:
  "\<not> in_unit_range (additive_combine (Vec3 1 1 1) (Vec3 1 1 1) 1)"
  by (simp add: in_unit_range_def additive_combine_def Vec3_add_def Vec3_mul_def)

text \<open>
  Claim C4: in \<^verbatim>\<open>trace\<close> of raytracer.cpp, on a hit with reflectivity \<open>k > 0\<close> at a depth
  below 3, the result is the convex blend \<open>local * (1 - k) + reflected * k\<close> of the local
  colour and the colour traced along the reflected ray at depth + 1.  For \<open>k\<close> in \<open>[0, 1]\<close>
  and colours with channels in \<open>[0, 1]\<close> the blend stays in \<open>[0, 1]\<close>, and the additive
  combination does not: some such inputs take it out of the range.
\<close>

theorem trace_convex_blend:
  "(\<not> depth > 3 \<and> Scene_intersect sc ray = (True, t, hit_idx)
      \<and> reflectivity (material (spheres sc ! nat hit_idx)) > 0 \<and> depth < 3
      \<longrightarrow> Scene_trace sc ray depth =
            convex_blend (trace_local_color (shadow_test sc) sc ray t hit_idx)
              (Scene_trace sc (trace_reflect_ray sc ray t hit_idx) (depth + 1))
              (reflectivity (material (spheres sc ! nat hit_idx))))
   \<and> (0 \<le> k \<and> k \<le> 1 \<and> in_unit_range a \<and> in_unit_range b \<longrightarrow> in_unit_range (convex_blend a b k))
   \<and> (\<exists>k' a' b'. 0 \<le> k' \<and> k' \<le> 1 \<and> in_unit_range a' \<and> in_unit_range b'
         \<and> \<not> in_unit_range (additive_combine a' b' k'))"
proof (intro conjI impI)
  show "\<exists>k' a' b'. 0 \<le> k' \<and> k' \<le> 1 \<and> in_unit_range a' \<and> in_unit_range b'
         \<and> \<not> in_unit_range (additive_combine a' b' k')"
    using additive_out_of_range
    by (intro exI [of _ 1] exI [of _ "Vec3 1 1 1"]) (simp add: in_unit_range_def)
qed (simp_all add: Scene_trace_reflect convex_blend_in_range)

lemma Scene_trace_call:
  "Scene_trace_rel callee (sc, ray, depth) \<Longrightarrow>
   depth < 3 \<and> fst callee = sc \<and> snd (snd callee) = depth + 1"
  by (erule Scene_trace_rel.cases) auto

lemma Scene_trace_main_call:
  "Scene_trace_main_rel callee (sc, ray, depth) \<Longrightarrow>
   depth < 3 \<and> fst callee = sc \<and> snd (snd callee) = depth + 1"
  by (erule Scene_trace_main_rel.cases) auto

lemma Scene_trace_total: "Scene_trace_dom (sc, ray, depth)"
proof -
  have "wfp Scene_trace_rel"
  proof (rule wfp_if_convertible_to_nat)
    fix callee caller :: "Scene \<times> Ray \<times> int"
    assume "Scene_trace_rel callee caller"
    then show "nat (3 - snd (snd callee)) < nat (3 - snd (snd caller))"
      using Scene_trace_call [of callee "fst caller" "fst (snd caller)" "snd (snd caller)"]
      by simp
  qed
  then show ?thesis by (rule accp_wfpD)
qed

lemma Scene_trace_main_total: "Scene_trace_main_dom (sc, ray, depth)"
proof -
  have "wfp Scene_trace_main_rel"
  proof (rule wfp_if_convertible_to_nat)
    fix callee caller :: "Scene \<times> Ray \<times> int"
    assume "Scene_trace_main_rel callee caller"
    then show "nat (3 - snd (snd callee)) < nat (3 - snd (snd caller))"
      using Scene_trace_main_call [of callee "fst caller" "fst (snd caller)" "snd (snd caller)"]
      by simp
  qed
  then show ?thesis by (rule accp_wfpD)
qed

lemma Scene_trace_bottom:
  "3 \<le> depth \<Longrightarrow> Scene_trace sc ray depth =
     (case Scene_intersect sc ray of
        (found, t, hit_idx) \<Rightarrow>
          if depth > 3 \<or> \<not> found then background sc
          else trace_local_color (shadow_test sc) sc ray t hit_idx)"
  by (subst Scene_trace.simps) (auto split: prod.splits simp: Let_def)

lemma Scene_trace_main_bottom:
  "3 \<le> depth \<Longrightarrow> Scene_trace_main sc ray depth =
     (case Scene_intersect_main sc ray of
        (found, t, hit_idx) \<Rightarrow>
          if depth > 3 \<or> \<not> found then background sc
          else trace_local_color (shadow_test_main sc) sc ray t hit_idx)"
  by (subst Scene_trace_main.simps) (auto split: prod.splits simp: Let_def)

lemma nested_calls_bounded:
  assumes step: "\<And>callee sc ray depth. R callee (sc, ray, depth) \<Longrightarrow>
      depth < 3 \<and> fst callee = sc \<and> snd (snd callee) = depth + (1::int)"
    and chain: "tranclp R callee caller"
  shows "fst callee = fst caller \<and> snd (snd caller) < snd (snd callee) \<and> snd (snd callee) \<le> 3"
  using chain
proof (induction rule: tranclp_induct)
  case (base y)
  then show ?case using step [of callee "fst y" "fst (snd y)" "snd (snd y)"] by simp
next
  case (step y z)
  then show ?case using assms(1) [of y "fst z" "fst (snd z)" "snd (snd z)"] by simp
qed

text \<open>
  Claim C6: \<^verbatim>\<open>trace\<close> (of either file) terminates on every scene, ray and depth: every
  argument lies in the domain of the function, that is, no chain of nested self-calls
  is infinite.  A self-call is made only from a depth below 3, on the same scene, with
  depth + 1; so every call nested in \<open>trace sc ray depth\<close> has a depth above \<open>depth\<close> and
  at most 3, and at depth 3 the result is the background or the local colour, with no
  self-call.  \<open>Scene_trace_rel callee caller\<close> is the call relation the definition of
  \<open>Scene_trace\<close> gives rise to.
\<close>

theorem trace_terminates:
  "Scene_trace_dom (sc, ray, depth)
   \<and> (Scene_trace_rel callee (sc, ray, depth) \<longrightarrow>
        depth < 3 \<and> fst callee = sc \<and> snd (snd callee) = depth + 1)
   \<and> (tranclp Scene_trace_rel callee (sc, ray, depth) \<longrightarrow>
        depth < snd (snd callee) \<and> snd (snd callee) \<le> 3)
   \<and> (3 \<le> depth \<longrightarrow> Scene_trace sc ray depth =
        (case Scene_intersect sc ray of
           (found, t, hit_idx) \<Rightarrow>
             if depth > 3 \<or> \<not> found then background sc
             else trace_local_color (shadow_test sc) sc ray t hit_idx))
   \<and> Scene_trace_main_dom (sc, ray, depth)
   \<and> (Scene_trace_main_rel callee (sc, ray, depth) \<longrightarrow>
        depth < 3 \<and> fst callee = sc \<and> snd (snd callee) = depth + 1)
   \<and> (tranclp Scene_trace_main_rel callee (sc, ray, depth) \<longrightarrow>
        depth < snd (snd callee) \<and> snd (snd callee) \<le> 3)
   \<and> (3 \<le> depth \<longrightarrow> Scene_trace_main sc ray depth =
        (case Scene_intersect_main sc ray of
           (found, t, hit_idx) \<Rightarrow>
             if depth > 3 \<or> \<not> found then background sc
             else trace_local_color (shadow_test_main sc) sc ray t hit_idx))"
  using Scene_trace_total [of sc ray depth] Scene_trace_main_total [of sc ray depth]
    Scene_trace_call [of callee sc ray depth] Scene_trace_main_call [of callee sc ray depth]
    nested_calls_bounded [of Scene_trace_rel callee "(sc, ray, depth)", OF Scene_trace_call]
    nested_calls_bounded [of Scene_trace_main_rel callee "(sc, ray, depth)", OF Scene_trace_main_call]
    Scene_trace_bottom [of depth sc ray] Scene_trace_main_bottom [of depth sc ray]
  by simp

lemma down_ray_unit: "Vec3_length (direction (Ray_new orig (Vec3 0 0 (- 1)))) = 1"
  by (simp add: Ray_new_def example_ray_down Vec3_length_def)

lemma one_sphere_scene_hit:
  "Scene_intersect one_sphere_scene (Ray_new (Vec3 0 0 5) (Vec3 0 0 (- 1))) = (True, 4, 0)"
  using DBL_MAX_big
  by (simp add: Scene_intersect_def Scene_intersect_with_def one_sphere_scene_def candy_hit)

lemma tie_scene_miss_main:
  "Scene_intersect_main tie_scene (Ray_new (Vec3 5 0 0) (Vec3 0 0 (- 1))) = (False, DBL_MAX, - 1)"
  by (simp add: Scene_intersect_main_def Scene_intersect_with_def tie_scene_def
        Sphere_intersect_main_eq [OF down_ray_unit] candy_miss wide_miss)

text \<open>
  Claim C5 at concrete inputs: a ray that hits the sphere traced at depth 4, and a ray
  that misses every sphere traced at depths 0 and 2, all give the background
  \<open>(0.1, 0.1, 0.15)\<close>.
\<close>

theorem trace_background_witness:
  "(3::int) < 4
   \<and> Scene_trace one_sphere_scene (Ray_new (Vec3 0 0 5) (Vec3 0 0 (- 1))) 4 = Vec3 0.1 0.1 0.15
   \<and> Scene_trace_main one_sphere_scene (Ray_new (Vec3 0 0 5) (Vec3 0 0 (- 1))) 4 = Vec3 0.1 0.1 0.15
   \<and> \<not> fst (Scene_intersect tie_scene (Ray_new (Vec3 5 0 0) (Vec3 0 0 (- 1))))
   \<and> Scene_trace tie_scene (Ray_new (Vec3 5 0 0) (Vec3 0 0 (- 1))) 0 = Vec3 0.1 0.1 0.15
   \<and> Scene_trace tie_scene (Ray_new (Vec3 5 0 0) (Vec3 0 0 (- 1))) 2 = Vec3 0.1 0.1 0.15
   \<and> \<not> fst (Scene_intersect_main tie_scene (Ray_new (Vec3 5 0 0) (Vec3 0 0 (- 1))))
   \<and> Scene_trace_main tie_scene (Ray_new (Vec3 5 0 0) (Vec3 0 0 (- 1))) 0 = Vec3 0.1 0.1 0.15"
proof -
  let ?hit = "Ray_new (Vec3 0 0 5) (Vec3 0 0 (- 1))"
  let ?miss = "Ray_new (Vec3 5 0 0) (Vec3 0 0 (- 1))"
  have d: "(3::int) < 4" by simp
  have m: "\<not> fst (Scene_intersect tie_scene ?miss)" by (simp add: tie_scene_miss)
  have m': "\<not> fst (Scene_intersect_main tie_scene ?miss)" by (simp add: tie_scene_miss_main)
  have b1: "background one_sphere_scene = Vec3 0.1 0.1 0.15" by (simp add: one_sphere_scene_def)
  have b2: "background tie_scene = Vec3 0.1 0.1 0.15" by (simp add: tie_scene_def)
  have 1: "Scene_trace one_sphere_scene ?hit 4 = Vec3 0.1 0.1 0.15"
    and 2: "Scene_trace_main one_sphere_scene ?hit 4 = Vec3 0.1 0.1 0.15"
    using trace_background [of 4 one_sphere_scene ?hit] d b1 by simp_all
  have 3: "Scene_trace tie_scene ?miss 0 = Vec3 0.1 0.1 0.15"
    and 5: "Scene_trace_main tie_scene ?miss 0 = Vec3 0.1 0.1 0.15"
    using trace_background [of 0 tie_scene ?miss] m m' b2 by simp_all
  have 4: "Scene_trace tie_scene ?miss 2 = Vec3 0.1 0.1 0.15"
    using trace_background [of 2 tie_scene ?miss] m b2 by simp
  from d 1 2 m 3 4 m' 5 show ?thesis by (intro conjI)
qed

text \<open>
  Claim C4 at a concrete hit: the ray from \<open>(0,0,5)\<close> down the z axis hits the sphere of
  reflectivity 0.3 at \<open>t = 4\<close>, and the result at depth 0 is the blend with \<open>k = 0.3\<close>.
\<close>

theorem trace_convex_blend_witness:
  "\<not> (0::int) > 3
   \<and> Scene_intersect one_sphere_scene (Ray_new (Vec3 0 0 5) (Vec3 0 0 (- 1))) = (True, 4, 0)
   \<and> reflectivity (material (spheres one_sphere_scene ! nat 0)) = 0.3
   \<and> (0::int) < 3
   \<and> Scene_trace one_sphere_scene (Ray_new (Vec3 0 0 5) (Vec3 0 0 (- 1))) 0 =
       convex_blend
         (trace_local_color (shadow_test one_sphere_scene) one_sphere_scene
            (Ray_new (Vec3 0 0 5) (Vec3 0 0 (- 1))) 4 0)
         (Scene_trace one_sphere_scene
            (trace_reflect_ray one_sphere_scene (Ray_new (Vec3 0 0 5) (Vec3 0 0 (- 1))) 4 0) (0 + 1))
         0.3
   \<and> in_unit_range (convex_blend (Vec3 1 0.4 0.7) (Vec3 0.1 0.1 0.15) 0.3)"
proof -
  let ?r = "Ray_new (Vec3 0 0 5) (Vec3 0 0 (- 1))"
  note t = trace_convex_blend [of 0 one_sphere_scene ?r 4 0 "0.3" "Vec3 1 0.4 0.7" "Vec3 0.1 0.1 0.15"]
  have k: "reflectivity (material (spheres one_sphere_scene ! nat 0)) = 0.3"
    by (simp add: one_sphere_scene_def candy_sphere_def bubblegum_def)
  have d: "\<not> (0::int) > 3" "(0::int) < 3" by simp_all
  have kpos: "reflectivity (material (spheres one_sphere_scene ! nat 0)) > 0"
    unfolding k by simp
  have r: "in_unit_range (Vec3 1 0.4 0.7)" "in_unit_range (Vec3 0.1 0.1 0.15)"
    by (simp_all add: in_unit_range_def)
  have 1: "Scene_trace one_sphere_scene ?r 0 =
       convex_blend (trace_local_color (shadow_test one_sphere_scene) one_sphere_scene ?r 4 0)
         (Scene_trace one_sphere_scene (trace_reflect_ray one_sphere_scene ?r 4 0) (0 + 1)) 0.3"
    using t d one_sphere_scene_hit kpos unfolding k by blast
  have k01: "(0::real) \<le> 0.3" "(0.3::real) \<le> 1" by simp_all
  have 2: "in_unit_range (convex_blend (Vec3 1 0.4 0.7) (Vec3 0.1 0.1 0.15) 0.3)"
    using t r k01 by blast
  from d(1) one_sphere_scene_hit k d(2) 1 2 show ?thesis by (intro conjI)
qed

lemma mirror_scene_hit:
  "Scene_intersect mirror_scene (Ray_new (Vec3 0 0 5) (Vec3 0 0 (- 1))) = (True, 4, 0)"
proof -
  have "Sphere_intersect \<lparr>center = Vec3 0 0 0, radius = 1, material = mirror\<rparr>
          (Ray_new (Vec3 0 0 5) (Vec3 0 0 (- 1))) = Some 4"
    by (simp add: Sphere_intersect_def Ray_new_def example_ray_down Vec3_sub_def
        Vec3_dot_def Vec3_lengthSquared_def)
  then show ?thesis
    using DBL_MAX_big
    by (simp add: Scene_intersect_def Scene_intersect_with_def mirror_scene_def)
qed

lemma intersect_loop_cong:
  assumes "\<And>s. f s ray = g s ray"
  shows "intersect_loop f sps ray i st = intersect_loop g sps ray i st"
  using assms
proof (induction f sps ray i st rule: intersect_loop.induct)
  case (1 isect sps ray i closest_t hit_idx)
  then show ?case by simp
qed

lemma Scene_intersect_main_eq:
  assumes "Vec3_length (direction ray) = 1"
  shows "Scene_intersect_main sc ray = Scene_intersect sc ray"
  using intersect_loop_cong [of Sphere_intersect_main ray Sphere_intersect]
    Sphere_intersect_main_eq [OF assms]
  by (simp add: Scene_intersect_main_def Scene_intersect_def Scene_intersect_with_def)

lemma mirror_scene_hit_main:
  "Scene_intersect_main mirror_scene (Ray_new (Vec3 0 0 5) (Vec3 0 0 (- 1))) = (True, 4, 0)"
  by (simp add: Scene_intersect_main_eq [OF down_ray_unit] mirror_scene_hit)

text \<open>
  Claim C6 on the fully mirrored sphere (reflectivity 1): the call at depth 0 makes the
  self-call at depth 1, and lies in the domain.
\<close>

theorem trace_terminates_witness:
  "Scene_trace_rel
     (mirror_scene, trace_reflect_ray mirror_scene (Ray_new (Vec3 0 0 5) (Vec3 0 0 (- 1))) 4 0, 0 + 1)
     (mirror_scene, Ray_new (Vec3 0 0 5) (Vec3 0 0 (- 1)), 0)
   \<and> Scene_trace_main_rel
     (mirror_scene, trace_reflect_ray mirror_scene (Ray_new (Vec3 0 0 5) (Vec3 0 0 (- 1))) 4 0, 0 + 1)
     (mirror_scene, Ray_new (Vec3 0 0 5) (Vec3 0 0 (- 1)), 0)
   \<and> Scene_trace_dom (mirror_scene, Ray_new (Vec3 0 0 5) (Vec3 0 0 (- 1)), 0)
   \<and> Scene_trace_main_dom (mirror_scene, Ray_new (Vec3 0 0 5) (Vec3 0 0 (- 1)), 0)
   \<and> reflectivity (material (spheres mirror_scene ! 0)) = 1"
proof -
  let ?r = "Ray_new (Vec3 0 0 5) (Vec3 0 0 (- 1))"
  let ?callee = "(mirror_scene, trace_reflect_ray mirror_scene ?r 4 0, (0::int) + 1)"
  have k: "reflectivity (material (spheres mirror_scene ! 0)) = 1"
    by (simp add: mirror_scene_def mirror_def)
  have c: "Scene_trace_rel ?callee (mirror_scene, ?r, 0)"
    by (rule Scene_trace_rel.intros [where x = True and y = "(4, 0)" and xa = 4 and ya = 0 and xc = 1])
       (simp_all add: mirror_scene_hit k)
  have c': "Scene_trace_main_rel ?callee (mirror_scene, ?r, 0)"
    by (rule Scene_trace_main_rel.intros [where x = True and y = "(4, 0)" and xa = 4 and ya = 0 and xc = 1])
       (simp_all add: mirror_scene_hit_main k)
  note t = trace_terminates [of mirror_scene ?r 0 ?callee]
  have d: "Scene_trace_dom (mirror_scene, ?r, 0)" "Scene_trace_main_dom (mirror_scene, ?r, 0)"
    using t by simp_all
  from c c' d k show ?thesis by (intro conjI)
qed

section \<open>The renderer: pixel samples and their order\<close>

lemma pack_pixel_mask:
  "pack_pixel r g b =
     push_bit 24 (mask 8) OR push_bit 16 (ucast r) OR push_bit 8 (ucast g) OR ucast b"
proof -
  have "(0xFF :: 32 word) = mask 8" by (simp add: mask_eq_exp_minus_1)
  then show ?thesis unfolding pack_pixel_def by (simp only:)
qed

lemma pack_alpha: "drop_bit 24 (pack_pixel r g b) = 0xFF"
proof -
  have "drop_bit 24 (pack_pixel r g b) = mask 8"
    unfolding pack_pixel_mask
    by (rule bit_word_eqI) (auto simp: bit_simps dest: bit_imp_le_length)
  then show ?thesis by (simp add: mask_eq_exp_minus_1)
qed

lemma pack_red: "ucast (drop_bit 16 (pack_pixel r g b)) = r"
  unfolding pack_pixel_mask
  by (rule bit_word_eqI) (auto simp: bit_simps dest: bit_imp_le_length)

lemma pack_green: "ucast (drop_bit 8 (pack_pixel r g b)) = g"
  unfolding pack_pixel_mask
  by (rule bit_word_eqI) (auto simp: bit_simps dest: bit_imp_le_length)

lemma pack_blue: "ucast (pack_pixel r g b) = b"
  unfolding pack_pixel_mask
  by (rule bit_word_eqI) (auto simp: bit_simps dest: bit_imp_le_length)

lemma store_pixel_length [simp]:
  "length (store_pixel tr sc cam width height c pixels) = length pixels"
  by (simp add: store_pixel_def split: prod.splits)

lemma fold_store_length [simp]:
  "length (fold (store_pixel tr sc cam width height) sched pixels) = length pixels"
  by (induction sched arbitrary: pixels) simp_all

lemma cell_of_index:
  fixes i j w :: int
  assumes "0 \<le> i" "i < w" "0 \<le> j" "nat (j * w + i) = k"
  shows "int k mod w = i \<and> int k div w = j"
proof -
  have "0 \<le> j * w + i" using assms by simp
  then have k: "int k = j * w + i" using assms(4) by simp
  show ?thesis using assms(1,2) by (simp add: k)
qed

lemma fold_store_nth:
  assumes "\<forall>c\<in>set sched. 0 \<le> fst c \<and> fst c < width \<and> 0 \<le> snd c"
    and "k < length pixels"
  shows "fold (store_pixel tr sc cam width height) sched pixels ! k =
     (if \<exists>c\<in>set sched. nat (snd c * width + fst c) = k
      then render_pixel tr sc cam width height (int k mod width) (int k div width)
      else pixels ! k)"
  using assms
proof (induction sched arbitrary: pixels)
  case Nil
  then show ?case by simp
next
  case (Cons c sched)
  obtain i j where c: "c = (i, j)" by (cases c)
  have g: "0 \<le> i" "i < width" "0 \<le> j" using Cons.prems(1) c by simp_all
  let ?px = "store_pixel tr sc cam width height c pixels"
  have here: "?px ! k = (if nat (j * width + i) = k
      then render_pixel tr sc cam width height (int k mod width) (int k div width)
      else pixels ! k)"
    using Cons.prems(2) cell_of_index [OF g] by (auto simp: store_pixel_def c)
  have "fold (store_pixel tr sc cam width height) sched ?px ! k =
     (if \<exists>c\<in>set sched. nat (snd c * width + fst c) = k
      then render_pixel tr sc cam width height (int k mod width) (int k div width)
      else ?px ! k)"
    using Cons.prems by (intro Cons.IH) simp_all
  then show ?case using here by (auto simp: c)
qed

lemma render_row_fold:
  "render_row tr sc cam width height j i pixels =
     fold (store_pixel tr sc cam width height) (map (\<lambda>i. (i, j)) [i..width - 1]) pixels"
proof (induction tr sc cam width height j i pixels rule: render_row.induct)
  case (1 tr sc cam width height j i pixels)
  show ?case
  proof (cases "i < width")
    case True
    then have "[i..width - 1] = i # [i + 1..width - 1]" by (simp add: upto_rec1)
    then show ?thesis using True "1.IH" by (subst render_row.simps) simp
  next
    case False
    then show ?thesis by (subst render_row.simps) simp
  qed
qed

lemma render_rows_fold:
  "render_rows tr sc cam width height j pixels =
     fold (store_pixel tr sc cam width height)
       (concat (map (\<lambda>j. map (\<lambda>i. (i, j)) [0..width - 1]) [j..height - 1])) pixels"
proof (induction tr sc cam width height j pixels rule: render_rows.induct)
  case (1 tr sc cam width height j pixels)
  show ?case
  proof (cases "j < height")
    case True
    then have "[j..height - 1] = j # [j + 1..height - 1]" by (simp add: upto_rec1)
    then show ?thesis
      using True "1.IH" by (subst render_rows.simps) (simp add: render_row_fold)
  next
    case False
    then show ?thesis by (subst render_rows.simps) simp
  qed
qed

lemma render_rows_sched:
  "render_rows tr sc cam width height 0 pixels =
     render_sched tr sc cam width height (row_major width height) pixels"
  by (simp add: render_rows_fold render_sched_def row_major_def)

lemma row_major_schedule: "is_schedule width height (row_major width height)"
  by (auto simp: is_schedule_def row_major_def)

lemma render_sched_nth:
  assumes s: "is_schedule width height sched"
    and l: "length pixels = nat (width * height)"
    and c: "0 \<le> i" "i < width" "0 \<le> j" "j < height"
  shows "render_sched tr sc cam width height sched pixels ! nat (j * width + i) =
         render_pixel tr sc cam width height i j"
proof -
  have grid: "\<forall>c\<in>set sched. 0 \<le> fst c \<and> fst c < width \<and> 0 \<le> snd c"
    using s by (auto simp: is_schedule_def)
  have "j * width + i < (j + 1) * width" using c by (simp add: algebra_simps)
  also have "\<dots> \<le> height * width" using c by (intro mult_right_mono) simp_all
  finally have k: "nat (j * width + i) < length pixels"
    using l c by (simp add: mult.commute nat_less_iff)
  have m: "(i, j) \<in> set sched" using s c by (simp add: is_schedule_def)
  have "\<exists>c\<in>set sched. nat (snd c * width + fst c) = nat (j * width + i)"
    using m by force
  then show ?thesis
    unfolding render_sched_def fold_store_nth [OF grid k]
    using cell_of_index [OF c(1,2,3) refl] by simp
qed

lemma render_sched_determined:
  assumes s: "is_schedule width height sched" "is_schedule width height sched'"
    and l: "length pixels = nat (width * height)" "length pixels' = nat (width * height)"
    and w: "0 \<le> width" "0 \<le> height"
  shows "render_sched tr sc cam width height sched pixels =
         render_sched tr sc cam width height sched' pixels'"
proof (rule nth_equalityI)
  show "length (render_sched tr sc cam width height sched pixels) =
        length (render_sched tr sc cam width height sched' pixels')"
    using l by (simp add: render_sched_def)
next
  fix k assume "k < length (render_sched tr sc cam width height sched pixels)"
  then have k: "k < nat (width * height)" using l by (simp add: render_sched_def)
  then have pos: "0 < width * height" by simp
  then have wpos: "0 < width" and hpos: "0 < height"
    using w by (simp_all add: zero_less_mult_iff)
  let ?i = "int k mod width" and ?j = "int k div width"
  have i: "0 \<le> ?i" "?i < width" using wpos by simp_all
  have j0: "0 \<le> ?j" using wpos by (simp add: pos_imp_zdiv_nonneg_iff)
  have kk: "int k < height * width" using k by (simp add: mult.commute)
  have d: "?j * width + ?i = int k" by simp
  have j1: "?j < height"
  proof (rule ccontr)
    assume "\<not> ?j < height"
    then have "height * width \<le> ?j * width" using wpos by (intro mult_right_mono) simp_all
    then show False using kk d i(1) by linarith
  qed
  have e: "nat (?j * width + ?i) = k" by simp
  show "render_sched tr sc cam width height sched pixels ! k =
        render_sched tr sc cam width height sched' pixels' ! k"
    using render_sched_nth [OF s(1) l(1) i j0 j1, of tr sc cam]
      render_sched_nth [OF s(2) l(2) i j0 j1, of tr sc cam]
    unfolding e by simp
qed

text \<open>
  Claim C10: the rendered buffer is a function of scene, camera, width and height alone.
  Whatever the order in which the workers' pixel stores reach the buffer (any list that
  covers the grid), and whatever the buffer held before, the result equals the buffer
  the single-worker loops produce.
\<close>

theorem render_deterministic:
  "0 \<le> width \<and> 0 \<le> height \<and> is_schedule width height sched
     \<and> length pixels = nat (width * height) \<and> length pixels' = nat (width * height)
   \<longrightarrow> render_sched Scene_trace sc cam width height sched pixels =
         Renderer_render sc cam width height pixels'
       \<and> render_sched Scene_trace_main sc cam width height sched pixels =
         Renderer_render_main sc cam width height pixels'"
  using render_sched_determined [OF _ row_major_schedule, of width height sched pixels pixels']
  by (simp add: Renderer_render_def Renderer_render_main_def render_rows_sched)

text \<open>
  Claim C10 on a 2 x 2 image: the stores in the order \<open>(1,1), (0,0), (1,0), (0,1)\<close> into a
  buffer holding 1, 2, 3, 4 give the buffer of the single-worker run on a zeroed buffer.
\<close>

theorem render_deterministic_witness:
  "(0::int) \<le> 2
   \<and> is_schedule 2 2 [(1, 1), (0, 0), (1, 0), (0, 1)]
   \<and> length [1, 2, 3, 4 :: 32 word] = nat (2 * 2)
   \<and> length [0, 0, 0, 0 :: 32 word] = nat (2 * 2)
   \<and> render_sched Scene_trace one_sphere_scene main_camera 2 2 [(1, 1), (0, 0), (1, 0), (0, 1)]
        [1, 2, 3, 4] =
      Renderer_render one_sphere_scene main_camera 2 2 [0, 0, 0, 0]"
proof -
  have h: "(0::int) \<le> 2" "length [1, 2, 3, 4 :: 32 word] = nat (2 * 2)"
    "length [0, 0, 0, 0 :: 32 word] = nat (2 * 2)" by simp_all
  have "{0..<2::int} = {0, 1}" by auto
  then have s: "is_schedule 2 2 [(1, 1), (0, 0), (1, 0), (0, 1)]"
    by (auto simp: is_schedule_def)
  have e: "render_sched Scene_trace one_sphere_scene main_camera 2 2 [(1, 1), (0, 0), (1, 0), (0, 1)]
        [1, 2, 3, 4] = Renderer_render one_sphere_scene main_camera 2 2 [0, 0, 0, 0]"
    using render_deterministic [of 2 2 "[(1, 1), (0, 0), (1, 0), (0, 1)]" "[1, 2, 3, 4]"
        "[0, 0, 0, 0]" one_sphere_scene main_camera] h s by blast
  from h(1) s h(2,3) e show ?thesis by (intro conjI)
qed

section \<open>The baseline's shadow test\<close>

text \<open>
  The shadow test of main.cpp is the closest-hit query without the restriction to the
  light distance: a sphere beyond the light (hit at \<open>t = 4\<close>, light at distance 2) shadows
  the point there, and does not under the any-hit query of raytracer.cpp.
\<close>

lemma shadow_tests_differ_beyond_light:
  "\<not> shadow_test one_sphere_scene (Ray_new (Vec3 0 0 5) (Vec3 0 0 (- 1))) 2
   \<and> shadow_test_main one_sphere_scene (Ray_new (Vec3 0 0 5) (Vec3 0 0 (- 1))) 2"
proof -
  have "Scene_intersect_main one_sphere_scene (Ray_new (Vec3 0 0 5) (Vec3 0 0 (- 1))) = (True, 4, 0)"
    by (simp add: Scene_intersect_main_eq [OF down_ray_unit] one_sphere_scene_hit)
  then show ?thesis
    by (simp add: shadow_test_def shadow_test_main_def Scene_intersectShadow_def
          one_sphere_scene_def candy_hit)
qed
section \<open>Binary64 rounding\<close>

text \<open>
  Facts about \<open>rnd\<close>: the binade of a number, the result of rounding as a multiple of the
  local spacing, overflow, and the evaluation of \<open>rnd\<close> at a given number.
\<close>

lemma pow2_powr: "pow2 e = 2 powr (of_int e)"
  by (simp add: pow2_def powr_real_of_int field_simps)

lemma pow2_pos [simp]: "0 < pow2 e"
  by (simp add: pow2_powr)

lemma pow2_add: "pow2 (a + b) = pow2 a * pow2 b"
  by (simp add: pow2_powr powr_add)

lemma pow2_nat: "0 \<le> e \<Longrightarrow> pow2 e = of_int (2 ^ nat e)"
  by (simp add: pow2_def)

lemma pow2_mono: "a \<le> b \<Longrightarrow> pow2 a \<le> pow2 b"
  by (simp add: pow2_powr)

lemma binade_bounds:
  assumes "x \<noteq> 0"
  shows "pow2 (binade x) \<le> \<bar>x\<bar>" and "\<bar>x\<bar> < pow2 (binade x + 1)"
proof -
  have p: "0 < \<bar>x\<bar>" using assms by simp
  have "of_int \<lfloor>log 2 \<bar>x\<bar>\<rfloor> \<le> log 2 \<bar>x\<bar>" by simp
  then show "pow2 (binade x) \<le> \<bar>x\<bar>"
    using p by (simp add: pow2_powr binade_def powr_le_iff del: of_int_floor_le)
  have "log 2 \<bar>x\<bar> < of_int (\<lfloor>log 2 \<bar>x\<bar>\<rfloor> + 1)" by linarith
  then show "\<bar>x\<bar> < pow2 (binade x + 1)"
    using p unfolding pow2_powr binade_def by (subst less_powr_iff) simp_all
qed

lemma binade_eqI:
  assumes "pow2 e \<le> \<bar>x\<bar>" "\<bar>x\<bar> < pow2 (e + 1)"
  shows "binade x = e"
proof -
  have p: "0 < \<bar>x\<bar>" using assms(1) pow2_pos [of e] by linarith
  have "of_int e \<le> log 2 \<bar>x\<bar>"
    using assms(1) p by (simp add: pow2_powr powr_le_iff)
  moreover have "log 2 \<bar>x\<bar> < of_int e + 1"
    using assms(2) p unfolding pow2_powr by (subst (asm) less_powr_iff) simp_all
  ultimately show ?thesis unfolding binade_def by linarith
qed

lemma binade_mono:
  assumes "x \<noteq> 0" "\<bar>x\<bar> \<le> \<bar>y\<bar>"
  shows "binade x \<le> binade y"
  unfolding binade_def using assms by (intro floor_mono) simp

lemma round_even_of_int [simp]: "round_even (of_int n) = n"
  by (simp add: round_even_def)

lemma round_even_le:
  assumes "z \<le> of_int M"
  shows "round_even z \<le> M"
proof (cases "\<lfloor>z\<rfloor> = M")
  case True
  then have "z = of_int M" using assms by (metis of_int_floor_le order_antisym)
  then show ?thesis by simp
next
  case False
  moreover have "\<lfloor>z\<rfloor> \<le> M" using assms by (simp add: floor_le_iff)
  ultimately show ?thesis by (simp add: round_even_def Let_def)
qed

lemma round_even_nonneg: "0 \<le> z \<Longrightarrow> 0 \<le> round_even z"
  by (simp add: round_even_def Let_def)

lemma ulp_pos [simp]: "0 < ulp x"
  by (simp add: ulp_def)

lemma round_even_ge:
  assumes "of_int M \<le> z"
  shows "M \<le> round_even z"
proof -
  have "M \<le> \<lfloor>z\<rfloor>" using assms by (simp add: le_floor_iff)
  then show ?thesis by (simp add: round_even_def Let_def)
qed

lemma round_even_zero [simp]: "round_even 0 = 0"
  using round_even_of_int [of 0] by simp

lemma rnd_magnitude_nonneg: "0 \<le> of_int (round_even (\<bar>x\<bar> / ulp x)) * ulp x"
  by (intro mult_nonneg_nonneg) (simp_all add: round_even_nonneg less_imp_le)

lemma rnd_Fin_D:
  assumes "rnd x = Fin p"
  shows "p = sgn x * (of_int (round_even (\<bar>x\<bar> / ulp x)) * ulp x)"
    and "of_int (round_even (\<bar>x\<bar> / ulp x)) * ulp x < pow2 1024"
proof -
  show "p = sgn x * (of_int (round_even (\<bar>x\<bar> / ulp x)) * ulp x)"
    using assms by (cases "x = 0") (auto simp: rnd_def Let_def split: if_splits)
  show "of_int (round_even (\<bar>x\<bar> / ulp x)) * ulp x < pow2 1024"
  proof (cases "x = 0")
    case True
    then show ?thesis by simp
  next
    case False
    then show ?thesis using assms by (auto simp: rnd_def Let_def split: if_splits)
  qed
qed

lemma rnd_Fin_less:
  assumes "rnd x = Fin p"
  shows "\<bar>p\<bar> < pow2 1024"
proof -
  let ?m = "of_int (round_even (\<bar>x\<bar> / ulp x)) * ulp x"
  have mn: "0 \<le> ?m" by (rule rnd_magnitude_nonneg)
  have "\<bar>p\<bar> = \<bar>sgn x\<bar> * \<bar>?m\<bar>"
    by (subst rnd_Fin_D(1) [OF assms]) (simp only: abs_mult)
  also have "\<dots> = \<bar>sgn x\<bar> * ?m" by (simp only: abs_of_nonneg [OF mn])
  also have "\<dots> \<le> ?m"
    using rnd_magnitude_nonneg [of x] by (cases "x = 0") (simp_all add: abs_sgn_eq)
  finally show ?thesis using rnd_Fin_D(2) [OF assms] by linarith
qed

lemma rnd_overflow:
  assumes "pow2 1024 \<le> \<bar>x\<bar>"
  shows "rnd x = (if 0 < x then PInf else NInf)"
proof -
  have x0: "x \<noteq> 0"
  proof
    assume "x = 0"
    then have "pow2 1024 \<le> 0" using assms by simp
    moreover have "0 < pow2 1024" by (rule pow2_pos)
    ultimately show False by linarith
  qed
  have e: "1024 \<le> binade x"
  proof (rule ccontr)
    assume "\<not> 1024 \<le> binade x"
    then have "binade x + 1 \<le> 1024" by simp
    then have "pow2 (binade x + 1) \<le> pow2 1024" by (rule pow2_mono)
    then show False using binade_bounds(2) [OF x0] assms by linarith
  qed
  then have u: "ulp x = pow2 (binade x - 52)" by (simp add: ulp_def max_def)
  have "pow2 (binade x) = pow2 52 * pow2 (binade x - 52)"
    using pow2_add [of 52 "binade x - 52"] by simp
  then have "of_int (2 ^ 52) * ulp x \<le> \<bar>x\<bar>"
    using binade_bounds(1) [OF x0] by (simp add: u pow2_nat)
  then have "of_int (2 ^ 52) \<le> \<bar>x\<bar> / ulp x"
    by (simp add: pos_le_divide_eq)
  then have "2 ^ 52 \<le> round_even (\<bar>x\<bar> / ulp x)" by (rule round_even_ge)
  then have "of_int (2 ^ 52) * ulp x \<le> of_int (round_even (\<bar>x\<bar> / ulp x)) * ulp x"
    by (intro mult_right_mono) (simp_all add: less_imp_le)
  moreover have "of_int (2 ^ 52) * ulp x = pow2 (binade x)"
    using pow2_add [of 52 "binade x - 52"] by (simp add: u pow2_nat)
  moreover have "pow2 1024 \<le> pow2 (binade x)" using e by (rule pow2_mono)
  ultimately have "pow2 1024 \<le> of_int (round_even (\<bar>x\<bar> / ulp x)) * ulp x" by linarith
  then show ?thesis using x0 by (simp add: rnd_def Let_def)
qed

lemma rnd_Fin_arg_less: "rnd x = Fin p \<Longrightarrow> \<bar>x\<bar> < pow2 1024"
  using rnd_overflow [of x] by (cases "pow2 1024 \<le> \<bar>x\<bar>") (auto split: if_splits)

text \<open>A representable bound is never crossed by rounding.\<close>

lemma rnd_le_representable:
  assumes x: "0 \<le> x" "x \<le> y" and y: "rnd y = Fin y"
  shows "\<exists>p. rnd x = Fin p \<and> 0 \<le> p \<and> p \<le> y"
proof (cases "x = 0")
  case True
  then show ?thesis using x by (simp add: rnd_def)
next
  case False
  then have xp: "0 < x" and yp: "0 < y" using x by simp_all
  let ?Ny = "round_even (\<bar>y\<bar> / ulp y)"
  have yN: "y = of_int ?Ny * ulp y"
    using rnd_Fin_D(1) [OF y] yp by simp
  have ylt: "y < pow2 1024" using rnd_Fin_less [OF y] yp by simp
  have "binade x \<le> binade y" using xp x(2) by (intro binade_mono) simp_all
  then have k: "0 \<le> max (binade y) (- 1022) - 52 - (max (binade x) (- 1022) - 52)" by simp
  define k where "k = max (binade y) (- 1022) - 52 - (max (binade x) (- 1022) - 52)"
  have k0: "0 \<le> k" using k by (simp add: k_def)
  have uy: "ulp y = of_int (2 ^ nat k) * ulp x"
    using pow2_add [of k "max (binade x) (- 1022) - 52"] pow2_nat [OF k0]
    by (simp add: ulp_def k_def)
  have "x / ulp x \<le> y / ulp x" using x(2) by (simp add: divide_right_mono less_imp_le)
  also have "y / ulp x = of_int (?Ny * 2 ^ nat k)"
    by (subst yN) (simp add: uy)
  finally have "round_even (x / ulp x) \<le> ?Ny * 2 ^ nat k" by (rule round_even_le)
  then have "(of_int (round_even (x / ulp x)) :: real) \<le> of_int (?Ny * 2 ^ nat k)"
    by (simp only: of_int_le_iff)
  then have "of_int (round_even (x / ulp x)) * ulp x \<le> of_int (?Ny * 2 ^ nat k) * ulp x"
    by (rule mult_right_mono) (simp add: less_imp_le)
  also have "\<dots> = y" by (subst (2) yN) (simp add: uy)
  finally have m: "of_int (round_even (x / ulp x)) * ulp x \<le> y" .
  have "0 \<le> of_int (round_even (x / ulp x)) * ulp x"
    using rnd_magnitude_nonneg [of x] xp by simp
  then show ?thesis using m ylt xp by (simp add: rnd_def Let_def)
qed

lemma rnd_abs_le_representable:
  assumes x: "\<bar>x\<bar> \<le> y" and y: "rnd y = Fin y"
  shows "\<exists>p. rnd x = Fin p \<and> \<bar>p\<bar> \<le> y"
proof (cases "x = 0")
  case True
  then show ?thesis using x by (simp add: rnd_def)
next
  case False
  have u: "ulp \<bar>x\<bar> = ulp x" by (simp add: ulp_def binade_def)
  obtain p where p: "rnd \<bar>x\<bar> = Fin p" "0 \<le> p" "p \<le> y"
    using rnd_le_representable [OF _ x y] by auto
  have m: "of_int (round_even (\<bar>x\<bar> / ulp x)) * ulp x = p"
    and l: "of_int (round_even (\<bar>x\<bar> / ulp x)) * ulp x < pow2 1024"
    using rnd_Fin_D [OF p(1)] False by (simp_all add: u)
  have "rnd x = Fin (sgn x * p)" using False l m by (simp add: rnd_def Let_def)
  moreover have "\<bar>sgn x * p\<bar> \<le> y" using p False by (simp add: abs_mult)
  ultimately show ?thesis by blast
qed

lemma rnd_eval:
  assumes "pow2 e \<le> \<bar>x\<bar>" "\<bar>x\<bar> < pow2 (e + 1)"
    and "round_even (\<bar>x\<bar> / pow2 (max e (- 1022) - 52)) = n"
    and "of_int n * pow2 (max e (- 1022) - 52) < pow2 1024"
    and "y = sgn x * (of_int n * pow2 (max e (- 1022) - 52))"
  shows "rnd x = Fin y"
proof -
  have x0: "x \<noteq> 0"
  proof
    assume "x = 0"
    then have "pow2 e \<le> 0" using assms(1) by simp
    moreover have "0 < pow2 e" by (rule pow2_pos)
    ultimately show False by linarith
  qed
  have u: "ulp x = pow2 (max e (- 1022) - 52)"
    using binade_eqI [OF assms(1,2)] by (simp add: ulp_def)
  show ?thesis using x0 assms(3,4,5) by (simp add: rnd_def Let_def u)
qed

section \<open>The operations on doubles\<close>

lemma dless_NaN_right [simp]: "\<not> dless a NaN"
  by (cases a) auto

lemma dless_NInf_right [simp]: "\<not> dless a NInf"
  by (cases a) auto

lemma dless_PInf_left [simp]: "\<not> dless PInf b"
  by (cases b) auto

lemma dadd_NaN_right [simp]: "dadd a NaN = NaN"
  by (cases a) auto

lemma dless_trans: "dless a b \<Longrightarrow> dless b c \<Longrightarrow> dless a c"
  by (cases a; cases b; cases c) auto

lemma dless_total: "a \<noteq> NaN \<Longrightarrow> b \<noteq> NaN \<Longrightarrow> dless a b \<or> a = b \<or> dless b a"
  by (cases a; cases b) auto

lemma dless_not_NaN: "dless a b \<Longrightarrow> a \<noteq> NaN \<and> b \<noteq> NaN"
  by (cases a; cases b) auto

lemma dless_irrefl: "\<not> dless a a"
  by (cases a) auto

lemma dadd_Fin_D:
  assumes "dadd a b = Fin z"
  shows "\<exists>x y. a = Fin x \<and> b = Fin y \<and> rnd (x + y) = Fin z"
  using assms by (cases a; cases b) auto

lemma dmul_Fin_D:
  assumes "dmul a b = Fin z"
  shows "\<exists>x y. a = Fin x \<and> b = Fin y \<and> rnd (x * y) = Fin z"
  using assms by (cases a; cases b) (auto split: if_splits)

lemma dneg_eq_Fin: "dneg a = Fin y \<longleftrightarrow> a = Fin (- y)"
  by (cases a) auto

lemma pow2_512_sq: "pow2 512 * pow2 512 = pow2 1024"
  using pow2_add [of 512 512] by simp

lemma pow2_512_double: "pow2 512 + pow2 512 = pow2 513"
  using pow2_add [of 1 512] by (simp add: pow2_def)

lemma rnd_pow2_512: "rnd (pow2 512) = Fin (pow2 512)"
  by (rule rnd_eval [where e = 512 and n = "2 ^ 52"])
     (simp_all add: pow2_def round_even_def Let_def)

lemma rnd_pow2_513: "rnd (pow2 513) = Fin (pow2 513)"
  by (rule rnd_eval [where e = 513 and n = "2 ^ 52"])
     (simp_all add: pow2_def round_even_def Let_def)

lemma pow2_513_less_DBL_MAX: "pow2 513 < DBL_MAX"
  by (simp add: pow2_def DBL_MAX_def)

lemma abs_less_pow2_512:
  assumes "\<bar>b * b\<bar> < pow2 1024"
  shows "\<bar>b\<bar> < pow2 512"
proof (rule ccontr)
  assume "\<not> \<bar>b\<bar> < pow2 512"
  then have "pow2 512 \<le> \<bar>b\<bar>" by simp
  then have "pow2 512 * pow2 512 \<le> \<bar>b\<bar> * \<bar>b\<bar>"
    by (intro mult_mono) (simp_all add: less_imp_le)
  then show False using assms by (simp add: pow2_512_sq abs_mult)
qed

lemma sqrt_less_pow2_512:
  assumes "0 \<le> D" "D < pow2 1024"
  shows "sqrt D \<le> pow2 512"
proof -
  have "sqrt D \<le> sqrt (pow2 512 * pow2 512)"
    using assms by (simp add: pow2_512_sq)
  then show ?thesis by (simp add: less_imp_le)
qed

text \<open>A parameter the half-b routine returns is infinite or at most 2^513.\<close>

lemma dSphere_intersect_range:
  assumes "dSphere_intersect s ray = Some t"
  shows "t = PInf \<or> (\<exists>x. t = Fin x \<and> \<bar>x\<bar> \<le> pow2 513)"
proof -
  define bh where "bh = dVec3_dot (dVec3_sub (d_origin ray) (d_center s)) (d_direction ray)"
  define c where "c = dsub (dVec3_lengthSquared (dVec3_sub (d_origin ray) (d_center s)))
                        (dmul (d_radius s) (d_radius s))"
  define disc where "disc = dsub (dmul bh bh) c"
  have nd: "\<not> dless disc (Fin 0)"
    and t: "(t = dsub (dneg bh) (dsqrt disc) \<and> dless (lit 0.001) t)
          \<or> (t = dadd (dneg bh) (dsqrt disc) \<and> dless (lit 0.001) t)"
    using assms
    by (auto simp: dSphere_intersect_def Let_def bh_def c_def disc_def split: if_splits)
  show ?thesis
  proof (cases disc)
    case NaN
    then show ?thesis using t by (cases "dneg bh") (auto simp: dsub_def)
  next
    case NInf
    then show ?thesis using nd by simp
  next
    case PInf
    then show ?thesis using t by (cases "dneg bh"; cases "lit 0.001") (auto simp: dsub_def)
  next
    case (Fin D)
    then have D0: "0 \<le> D" using nd by simp
    from Fin obtain P c' where P: "dmul bh bh = Fin P" and "rnd (P + c') = Fin D"
      unfolding disc_def dsub_def using dadd_Fin_D by blast
    then have Dl: "\<bar>D\<bar> < pow2 1024" using rnd_Fin_less by blast
    from P obtain b b' where b: "bh = Fin b" "bh = Fin b'" "rnd (b * b') = Fin P"
      using dmul_Fin_D by blast
    then have "rnd (b * b) = Fin P" by simp
    then have "\<bar>b * b\<bar> < pow2 1024" by (rule rnd_Fin_arg_less)
    then have bl: "\<bar>b\<bar> < pow2 512" by (rule abs_less_pow2_512)
    have "sqrt D \<le> pow2 512" using D0 Dl by (intro sqrt_less_pow2_512) simp_all
    then obtain sq where sq: "rnd (sqrt D) = Fin sq" "0 \<le> sq" "sq \<le> pow2 512"
      using rnd_le_representable [OF _ _ rnd_pow2_512, of "sqrt D"] D0 by auto
    have s: "dsqrt disc = Fin sq" using Fin D0 sq(1) by simp
    have "\<bar>- b + - sq\<bar> \<le> pow2 513" "\<bar>- b + sq\<bar> \<le> pow2 513"
      using bl sq(2,3) pow2_512_double by linarith+
    then obtain p1 p2 where "rnd (- b + - sq) = Fin p1" "\<bar>p1\<bar> \<le> pow2 513"
      "rnd (- b + sq) = Fin p2" "\<bar>p2\<bar> \<le> pow2 513"
      using rnd_abs_le_representable [OF _ rnd_pow2_513] by meson
    then show ?thesis using t by (auto simp: b(1) s dsub_def)
  qed
qed

lemma dSphere_intersect_below_max:
  assumes "dSphere_intersect s ray = Some t" "t \<noteq> PInf"
  shows "dless t (Fin DBL_MAX)"
  using dSphere_intersect_range [OF assms(1)] assms(2) pow2_513_less_DBL_MAX by auto

lemma dSphere_intersect_above_eps:
  "dSphere_intersect s ray = Some t \<Longrightarrow> dless (lit 0.001) t"
  by (auto simp: dSphere_intersect_def Let_def split: if_splits)

lemma dSphere_intersect_main_above_eps:
  "dSphere_intersect_main s ray = Some t \<Longrightarrow> dless (lit 0.001) t"
  by (auto simp: dSphere_intersect_main_def Let_def split: if_splits)

section \<open>Evaluating the operations\<close>

text \<open>
  Integers below \<open>2\<^sup>5\<^sup>3\<close> in magnitude are binary64 values; the literal \<^verbatim>\<open>0.001\<close> is the
  binary64 value next to it; a square root is rounded by comparing squares.
\<close>

lemma rnd_of_int:
  assumes "\<bar>n\<bar> < 2 ^ 53"
  shows "rnd (of_int n) = Fin (of_int n)"
proof (cases "n = 0")
  case True
  then show ?thesis by (simp add: rnd_def)
next
  case False
  let ?x = "of_int n :: real"
  have x0: "?x \<noteq> 0" using False by simp
  have ax: "\<bar>?x\<bar> = of_int \<bar>n\<bar>" by simp
  have "1 \<le> \<bar>n\<bar>" using False by simp
  then have lo: "pow2 0 \<le> \<bar>?x\<bar>" unfolding ax by (simp add: pow2_def)
  have e0: "0 \<le> binade ?x"
  proof (rule ccontr)
    assume "\<not> 0 \<le> binade ?x"
    then have "binade ?x + 1 \<le> 0" by simp
    then have "pow2 (binade ?x + 1) \<le> pow2 0" by (rule pow2_mono)
    then show False using binade_bounds(2) [OF x0] lo by linarith
  qed
  have "(of_int \<bar>n\<bar> :: real) < of_int (2 ^ 53)" using assms by (simp only: of_int_less_iff)
  then have hi: "\<bar>?x\<bar> < pow2 53" unfolding ax by (simp add: pow2_def)
  have e1: "binade ?x \<le> 52"
  proof (rule ccontr)
    assume "\<not> binade ?x \<le> 52"
    then have "pow2 53 \<le> pow2 (binade ?x)" by (intro pow2_mono) simp
    then show False using binade_bounds(1) [OF x0] hi by linarith
  qed
  define k where "k = 52 - binade ?x"
  have k0: "0 \<le> k" using e1 by (simp add: k_def)
  have u: "ulp ?x = pow2 (- k)" using e0 by (simp add: ulp_def k_def max_def)
  have inv: "pow2 (- k) * pow2 k = 1" using pow2_add [of "- k" k] by (simp add: pow2_def)
  have "pow2 (- k) = 1 / pow2 k" by (simp add: pow2_powr powr_minus divide_inverse)
  then have "\<bar>?x\<bar> / ulp ?x = \<bar>?x\<bar> * pow2 k"
    by (simp add: u)
  also have "\<dots> = of_int (\<bar>n\<bar> * 2 ^ nat k)" by (simp add: pow2_nat [OF k0])
  finally have r: "round_even (\<bar>?x\<bar> / ulp ?x) = \<bar>n\<bar> * 2 ^ nat k"
    by (simp only: round_even_of_int)
  have "of_int (round_even (\<bar>?x\<bar> / ulp ?x)) * ulp ?x = of_int (\<bar>n\<bar> * 2 ^ nat k) * pow2 (- k)"
    by (subst r) (simp only: u)
  also have "\<dots> = \<bar>?x\<bar> * (pow2 (- k) * pow2 k)"
    by (simp add: pow2_nat [OF k0])
  also have "\<dots> = \<bar>?x\<bar>" by (simp only: inv mult_1_right)
  finally have m: "of_int (round_even (\<bar>?x\<bar> / ulp ?x)) * ulp ?x = \<bar>?x\<bar>" .
  have "pow2 53 \<le> pow2 1024" by (intro pow2_mono) simp
  then have "\<not> pow2 1024 \<le> \<bar>?x\<bar>" using hi by linarith
  moreover have "sgn ?x * \<bar>?x\<bar> = ?x" by (rule sgn_mult_abs)
  ultimately show ?thesis using x0 by (simp add: rnd_def Let_def m del: of_int_abs)
qed

lemma rnd_numeral [simp]:
  "numeral k < (2 ^ 53 :: int) \<Longrightarrow> rnd (numeral k) = Fin (numeral k)"
  "numeral k < (2 ^ 53 :: int) \<Longrightarrow> rnd (- numeral k) = Fin (- numeral k)"
  using rnd_of_int [of "numeral k"] rnd_of_int [of "- numeral k"] by simp_all

lemma rnd_zero_one [simp]: "rnd 0 = Fin 0" "rnd 1 = Fin 1" "rnd (- 1) = Fin (- 1)"
  using rnd_of_int [of 0] rnd_of_int [of 1] rnd_of_int [of "- 1"] by simp_all

lemma lit_eps: "lit (1 / 1000) = Fin (1152921504606847 / 1152921504606846976)"
  unfolding lit_def
  by (rule rnd_eval [where e = "- 10" and n = 4611686018427388])
     (simp_all add: pow2_def round_even_def Let_def)

lemma round_even_near:
  assumes "of_int n - 1 / 2 < y" "y < of_int n + 1 / 2"
  shows "round_even y = n"
proof (cases "of_int n \<le> y")
  case True
  then have "\<lfloor>y\<rfloor> = n" using assms(2) by linarith
  then show ?thesis using assms(2) by (simp add: round_even_def Let_def)
next
  case False
  then have f: "\<lfloor>y\<rfloor> = n - 1" using assms(1) by linarith
  have "\<not> y - of_int (n - 1) < 1 / 2" "y - of_int (n - 1) \<noteq> 1 / 2" using assms(1) by simp_all
  then show ?thesis using f by (simp add: round_even_def Let_def)
qed

lemma rnd_sqrt_eval:
  assumes "pow2 e * pow2 e \<le> x" "x < pow2 (e + 1) * pow2 (e + 1)"
    and "0 \<le> (of_int n - 1 / 2) * pow2 (max e (- 1022) - 52)"
    and "((of_int n - 1 / 2) * pow2 (max e (- 1022) - 52)) * ((of_int n - 1 / 2) * pow2 (max e (- 1022) - 52)) < x"
    and "x < ((of_int n + 1 / 2) * pow2 (max e (- 1022) - 52)) * ((of_int n + 1 / 2) * pow2 (max e (- 1022) - 52))"
    and "of_int n * pow2 (max e (- 1022) - 52) < pow2 1024"
    and "y = of_int n * pow2 (max e (- 1022) - 52)"
  shows "rnd (sqrt x) = Fin y"
proof -
  define u where "u = pow2 (max e (- 1022) - 52)"
  have u: "0 < u" by (simp add: u_def)
  have p: "0 < pow2 e" "0 < pow2 (e + 1)" by simp_all
  have x: "0 < x" using assms(1) p(1) by (meson less_le_trans mult_pos_pos)
  then have s: "0 < sqrt x" by simp
  have 1: "pow2 e \<le> sqrt x"
    using assms(1) by (intro real_le_rsqrt) (simp add: power2_eq_square)
  have 2: "sqrt x < pow2 (e + 1)"
    using assms(2) less_imp_le [OF p(2)]
    by (intro real_less_lsqrt) (simp_all add: power2_eq_square)
  have 3: "(of_int n - 1 / 2) * u < sqrt x"
    using assms(4) by (intro real_less_rsqrt) (simp add: power2_eq_square u_def)
  have h: "0 \<le> (of_int n + 1 / 2) * u"
  proof -
    have "(of_int n - 1 / 2) * u \<le> (of_int n + 1 / 2) * u"
      using u by (intro mult_right_mono) simp_all
    moreover have "0 \<le> (of_int n - 1 / 2) * u" using assms(3) unfolding u_def .
    ultimately show ?thesis by linarith
  qed
  have 4: "sqrt x < (of_int n + 1 / 2) * u"
    using assms(5) h by (intro real_less_lsqrt) (simp_all add: power2_eq_square u_def)
  have "of_int n - 1 / 2 < sqrt x / u" "sqrt x / u < of_int n + 1 / 2"
    using 3 4 u by (simp_all add: field_simps)
  then have r: "round_even (sqrt x / u) = n" by (rule round_even_near)
  show ?thesis
    using 1 2 r assms(6,7) s
    by (intro rnd_eval [where e = e and n = n]) (simp_all add: u_def)
qed


lemma lit_eps_raw: "lit 0.001 = Fin (1152921504606847 / 1152921504606846976)"
  using lit_eps by simp

text \<open>
  The rules that unfold the binary64 code down to single operations on given doubles; the
  tables below give the value of each operation.
\<close>

lemmas d_eval = Let_def dVec3.sel dRay.select_convs dSphere.select_convs dsub_def dneg.simps
  minus_minus minus_zero if_True if_False lit_eps_raw
  dVec3_normalize_def dVec3_length_def dVec3_div_def dVec3_sub_def dVec3_dot_def
  dVec3_lengthSquared_def dRay_new_def dSphere_intersect_def dSphere_intersect_main_def

section \<open>Operation tables of the example rays\<close>


































text \<open>
  The operations met on \<open>diagonal_ray\<close> and the unit sphere, and when the length of its
  stored direction is computed.
\<close>

lemma diagonal_op_1:
  "dmul (Fin 1) (Fin 1) = (Fin 1)"
  by (simp only: dmul.simps)
     (rule rnd_eval [where e = "0" and n = 4503599627370496],
      simp_all add: pow2_def round_even_def Let_def)

lemma diagonal_op_2:
  "dadd (Fin 1) (Fin 1) = (Fin 2)"
  by (simp only: dadd.simps)
     (rule rnd_eval [where e = "1" and n = 4503599627370496],
      simp_all add: pow2_def round_even_def Let_def)

lemma diagonal_op_3:
  "dmul (Fin 0) (Fin 0) = (Fin 0)"
  by simp

lemma diagonal_op_4:
  "dadd (Fin 2) (Fin 0) = (Fin 2)"
  by (simp only: dadd.simps)
     (rule rnd_eval [where e = "1" and n = 4503599627370496],
      simp_all add: pow2_def round_even_def Let_def)

lemma diagonal_op_5:
  "dsqrt (Fin 2) = (Fin (6369051672525773 / 4503599627370496))"
proof -
  have "rnd (sqrt 2) = (Fin (6369051672525773 / 4503599627370496))"
    by (rule rnd_sqrt_eval [where e = "0" and n = 6369051672525773])
       (simp_all add: pow2_def round_even_def Let_def)
  then show ?thesis by simp
qed

lemma diagonal_op_6:
  "dless (Fin 0) (Fin (6369051672525773 / 4503599627370496))"
  by simp

lemma diagonal_op_7:
  "ddiv (Fin 1) (Fin (6369051672525773 / 4503599627370496)) = (Fin (1592262918131443 / 2251799813685248))"
  by (simp only: ddiv.simps, subst if_not_P, simp, rule rnd_eval [where e = "-1" and n = 6369051672525772],
      simp_all add: pow2_def round_even_def Let_def)

lemma diagonal_op_8:
  "ddiv (Fin 0) (Fin (6369051672525773 / 4503599627370496)) = (Fin 0)"
  by simp

lemma diagonal_op_9:
  "dadd (Fin (- 1)) (Fin 0) = (Fin (- 1))"
  by (simp only: dadd.simps)
     (rule rnd_eval [where e = "0" and n = 4503599627370496],
      simp_all add: pow2_def round_even_def Let_def)

lemma diagonal_op_10:
  "dadd (Fin 1) (Fin 0) = (Fin 1)"
  by (simp only: dadd.simps)
     (rule rnd_eval [where e = "0" and n = 4503599627370496],
      simp_all add: pow2_def round_even_def Let_def)

lemma diagonal_op_11:
  "dmul (Fin (- 1)) (Fin (1592262918131443 / 2251799813685248)) = (Fin (- (1592262918131443 / 2251799813685248)))"
  by (simp only: dmul.simps)
     (rule rnd_eval [where e = "-1" and n = 6369051672525772],
      simp_all add: pow2_def round_even_def Let_def)

lemma diagonal_op_12:
  "dadd (Fin (- (1592262918131443 / 2251799813685248))) (Fin (- (1592262918131443 / 2251799813685248))) = (Fin (- (1592262918131443 / 1125899906842624)))"
  by (simp only: dadd.simps)
     (rule rnd_eval [where e = "0" and n = 6369051672525772],
      simp_all add: pow2_def round_even_def Let_def)

lemma diagonal_op_13:
  "dmul (Fin 1) (Fin 0) = (Fin 0)"
  by simp

lemma diagonal_op_14:
  "dadd (Fin (- (1592262918131443 / 1125899906842624))) (Fin 0) = (Fin (- (1592262918131443 / 1125899906842624)))"
  by (simp only: dadd.simps)
     (rule rnd_eval [where e = "0" and n = 6369051672525772],
      simp_all add: pow2_def round_even_def Let_def)

lemma diagonal_op_15:
  "dmul (Fin (- 1)) (Fin (- 1)) = (Fin 1)"
  by (simp only: dmul.simps)
     (rule rnd_eval [where e = "0" and n = 4503599627370496],
      simp_all add: pow2_def round_even_def Let_def)

lemma diagonal_op_16:
  "dadd (Fin 2) (Fin 1) = (Fin 3)"
  by (simp only: dadd.simps)
     (rule rnd_eval [where e = "1" and n = 6755399441055744],
      simp_all add: pow2_def round_even_def Let_def)

lemma diagonal_op_17:
  "dadd (Fin 3) (Fin (- 1)) = (Fin 2)"
  by (simp only: dadd.simps)
     (rule rnd_eval [where e = "1" and n = 4503599627370496],
      simp_all add: pow2_def round_even_def Let_def)

lemma diagonal_op_18:
  "dmul (Fin (- (1592262918131443 / 1125899906842624))) (Fin (- (1592262918131443 / 1125899906842624))) = (Fin (4503599627370495 / 2251799813685248))"
  by (simp only: dmul.simps)
     (rule rnd_eval [where e = "0" and n = 9007199254740990],
      simp_all add: pow2_def round_even_def Let_def)

lemma diagonal_op_19:
  "dadd (Fin (4503599627370495 / 2251799813685248)) (Fin (- 2)) = (Fin (- (1 / 2251799813685248)))"
  by (simp only: dadd.simps)
     (rule rnd_eval [where e = "-51" and n = 4503599627370496],
      simp_all add: pow2_def round_even_def Let_def)

lemma diagonal_op_20:
  "dless (Fin (- (1 / 2251799813685248))) (Fin 0)"
  by simp

lemma diagonal_op_21:
  "dmul (Fin (1592262918131443 / 2251799813685248)) (Fin (1592262918131443 / 2251799813685248)) = (Fin (4503599627370495 / 9007199254740992))"
  by (simp only: dmul.simps)
     (rule rnd_eval [where e = "-2" and n = 9007199254740990],
      simp_all add: pow2_def round_even_def Let_def)

lemma diagonal_op_22:
  "dadd (Fin (4503599627370495 / 9007199254740992)) (Fin (4503599627370495 / 9007199254740992)) = (Fin (4503599627370495 / 4503599627370496))"
  by (simp only: dadd.simps)
     (rule rnd_eval [where e = "-1" and n = 9007199254740990],
      simp_all add: pow2_def round_even_def Let_def)

lemma diagonal_op_23:
  "dadd (Fin (4503599627370495 / 4503599627370496)) (Fin 0) = (Fin (4503599627370495 / 4503599627370496))"
  by (simp only: dadd.simps)
     (rule rnd_eval [where e = "-1" and n = 9007199254740990],
      simp_all add: pow2_def round_even_def Let_def)

lemma diagonal_op_24:
  "dmul (Fin 2) (Fin (- (1592262918131443 / 1125899906842624))) = (Fin (- (1592262918131443 / 562949953421312)))"
  by (simp only: dmul.simps)
     (rule rnd_eval [where e = "1" and n = 6369051672525772],
      simp_all add: pow2_def round_even_def Let_def)

lemma diagonal_op_25:
  "dmul (Fin (- (1592262918131443 / 562949953421312))) (Fin (- (1592262918131443 / 562949953421312))) = (Fin (4503599627370495 / 562949953421312))"
  by (simp only: dmul.simps)
     (rule rnd_eval [where e = "2" and n = 9007199254740990],
      simp_all add: pow2_def round_even_def Let_def)

lemma diagonal_op_26:
  "dmul (Fin 4) (Fin (4503599627370495 / 4503599627370496)) = (Fin (4503599627370495 / 1125899906842624))"
  by (simp only: dmul.simps)
     (rule rnd_eval [where e = "1" and n = 9007199254740990],
      simp_all add: pow2_def round_even_def Let_def)

lemma diagonal_op_27:
  "dmul (Fin (4503599627370495 / 1125899906842624)) (Fin 2) = (Fin (4503599627370495 / 562949953421312))"
  by (simp only: dmul.simps)
     (rule rnd_eval [where e = "2" and n = 9007199254740990],
      simp_all add: pow2_def round_even_def Let_def)

lemma diagonal_op_28:
  "dadd (Fin (4503599627370495 / 562949953421312)) (Fin (- (4503599627370495 / 562949953421312))) = (Fin 0)"
  by simp

lemma diagonal_op_29:
  "\<not> dless (Fin 0) (Fin 0)"
  by simp

lemma diagonal_op_30:
  "dsqrt (Fin 0) = (Fin 0)"
  by simp

lemma diagonal_op_31:
  "dadd (Fin (1592262918131443 / 562949953421312)) (Fin 0) = (Fin (1592262918131443 / 562949953421312))"
  by (simp only: dadd.simps)
     (rule rnd_eval [where e = "1" and n = 6369051672525772],
      simp_all add: pow2_def round_even_def Let_def)

lemma diagonal_op_32:
  "dmul (Fin 2) (Fin (4503599627370495 / 4503599627370496)) = (Fin (4503599627370495 / 2251799813685248))"
  by (simp only: dmul.simps)
     (rule rnd_eval [where e = "0" and n = 9007199254740990],
      simp_all add: pow2_def round_even_def Let_def)

lemma diagonal_op_33:
  "ddiv (Fin (1592262918131443 / 562949953421312)) (Fin (4503599627370495 / 2251799813685248)) = (Fin (6369051672525773 / 4503599627370496))"
  by (simp only: ddiv.simps, subst if_not_P, simp, rule rnd_eval [where e = "0" and n = 6369051672525773],
      simp_all add: pow2_def round_even_def Let_def)

lemma diagonal_op_34:
  "dless (Fin (1152921504606847 / 1152921504606846976)) (Fin (6369051672525773 / 4503599627370496))"
  by simp

lemma diagonal_op_35:
  "dsqrt (Fin (4503599627370495 / 4503599627370496)) = (Fin (9007199254740991 / 9007199254740992))"
proof -
  have "rnd (sqrt (4503599627370495 / 4503599627370496)) = (Fin (9007199254740991 / 9007199254740992))"
    by (rule rnd_sqrt_eval [where e = "-1" and n = 9007199254740991])
       (simp_all add: pow2_def round_even_def Let_def)
  then show ?thesis by simp
qed

lemmas diagonal_ops = diagonal_op_1 diagonal_op_2 diagonal_op_3 diagonal_op_4 diagonal_op_5
  diagonal_op_6 diagonal_op_7 diagonal_op_8 diagonal_op_9 diagonal_op_10 diagonal_op_11
  diagonal_op_12 diagonal_op_13 diagonal_op_14 diagonal_op_15 diagonal_op_16 diagonal_op_17
  diagonal_op_18 diagonal_op_19 diagonal_op_20 diagonal_op_21 diagonal_op_22 diagonal_op_23
  diagonal_op_24 diagonal_op_25 diagonal_op_26 diagonal_op_27 diagonal_op_28 diagonal_op_29
  diagonal_op_30 diagonal_op_31 diagonal_op_32 diagonal_op_33 diagonal_op_34 diagonal_op_35















text \<open>
  The operations met when the channels \<open>0x1.5c037aea306cp-1\<close>, 2 and -1 are clamped and
  scaled.
\<close>

lemma sample_op_1:
  "dless (Fin 0) (Fin (95661248384027 / 140737488355328))"
  by simp

lemma sample_op_2:
  "dless (Fin (95661248384027 / 140737488355328)) (Fin 1)"
  by simp

lemma sample_op_3:
  "dmul (Fin (1125855926377513 / 4398046511104)) (Fin (95661248384027 / 140737488355328)) = (Fin 174)"
  by (simp only: dmul.simps)
     (rule rnd_eval [where e = "7" and n = 6122080743456768],
      simp_all add: pow2_def round_even_def Let_def)

lemma sample_op_4:
  "dless (Fin 0) (Fin 2)"
  by simp

lemma sample_op_5:
  "\<not> dless (Fin 2) (Fin 1)"
  by simp

lemma sample_op_6:
  "dmul (Fin (1125855926377513 / 4398046511104)) (Fin 1) = (Fin (1125855926377513 / 4398046511104))"
  by (simp only: dmul.simps)
     (rule rnd_eval [where e = "7" and n = 9006847411020104],
      simp_all add: pow2_def round_even_def Let_def)

lemma sample_op_7:
  "\<not> dless (Fin 0) (Fin (- 1))"
  by simp

lemma sample_op_8:
  "dless (Fin 0) (Fin 1)"
  by simp

lemma sample_op_9:
  "dmul (Fin (1125855926377513 / 4398046511104)) (Fin 0) = (Fin 0)"
  by simp

lemmas sample_ops = sample_op_1 sample_op_2 sample_op_3 sample_op_4 sample_op_5 sample_op_6
  sample_op_7 sample_op_8 sample_op_9

section \<open>Example rays of the binary64 reading\<close>

lemma down_ray_eq:
  "down_ray x y z =
     \<lparr>d_origin = dVec3 (Fin x) (Fin y) (Fin z), d_direction = dVec3 (Fin 0) (Fin 0) (Fin (- 1))\<rparr>"
  by (simp add: down_ray_def dRay_new_def dVec3_normalize_def dVec3_length_def dVec3_div_def)

lemma d_hit_unit: "dSphere_intersect (d_sphere 1) (down_ray 0 0 5) = Some (Fin 4)"
  by (simp add: dSphere_intersect_def down_ray_eq d_sphere_def dVec3_sub_def dVec3_dot_def
        dVec3_lengthSquared_def dsub_def lit_eps)

lemma d_hit_wide: "dSphere_intersect (d_sphere 2) (down_ray 0 0 5) = Some (Fin 3)"
proof -
  have "sqrt 4 = 2" by simp
  then show ?thesis
    by (simp add: dSphere_intersect_def down_ray_eq d_sphere_def dVec3_sub_def dVec3_dot_def
        dVec3_lengthSquared_def dsub_def lit_eps del: real_sqrt_four)
qed


lemma d_miss_unit: "dSphere_intersect (d_sphere 1) (down_ray 5 0 0) = None"
  by (simp add: dSphere_intersect_def down_ray_eq d_sphere_def dVec3_sub_def dVec3_dot_def
        dVec3_lengthSquared_def dsub_def lit_eps)

lemma d_miss_wide: "dSphere_intersect (d_sphere 2) (down_ray 5 0 0) = None"
  by (simp add: dSphere_intersect_def down_ray_eq d_sphere_def dVec3_sub_def dVec3_dot_def
        dVec3_lengthSquared_def dsub_def lit_eps)

text \<open>
  A sphere of radius \<open>2\<^sup>6\<^sup>0\<^sup>0\<close> around the ray origin: \<^verbatim>\<open>radius * radius\<close> overflows, the
  discriminant and its root are infinite, and the routine returns true with \<open>t = +\<infinity>\<close>.
\<close>

lemma rnd_huge: "rnd (pow2 600 * pow2 600) = PInf"
proof -
  have "pow2 600 * pow2 600 = pow2 1200" using pow2_add [of 600 600] by simp
  moreover have "pow2 1024 \<le> pow2 1200" by (intro pow2_mono) simp
  moreover have "0 < pow2 1200" by (rule pow2_pos)
  ultimately show ?thesis using rnd_overflow [of "pow2 600 * pow2 600"] by simp
qed

lemma d_hit_huge: "dSphere_intersect (d_sphere (pow2 600)) (down_ray 0 0 0) = Some PInf"
  by (simp add: dSphere_intersect_def down_ray_eq d_sphere_def dVec3_sub_def dVec3_dot_def
        dVec3_lengthSquared_def dsub_def lit_eps rnd_huge)






lemma diagonal_half: "dSphere_intersect (d_sphere 1) diagonal_ray = None"
  by (simp only: diagonal_ray_def d_sphere_def d_eval diagonal_ops)

lemma diagonal_main:
  "dSphere_intersect_main (d_sphere 1) diagonal_ray
     = Some (Fin (6369051672525773 / 4503599627370496))"
  by (simp only: diagonal_ray_def d_sphere_def d_eval diagonal_ops)






section \<open>Ray construction\<close>




section \<open>Root selection\<close>





section \<open>The two algebraic forms\<close>

text \<open>
  Claim C3, the part that holds: in exact arithmetic, for a ray whose direction has
  length 1, the general quadratic form (main.cpp) and the half-b form (raytracer.cpp)
  return the same result: both miss, or both hit with the same \<open>t\<close>.
\<close>

theorem intersect_forms_agree:
  "Vec3_length (direction ray) = 1 \<Longrightarrow> Sphere_intersect_main s ray = Sphere_intersect s ray"
  by (rule Sphere_intersect_main_eq)

text \<open>
  Claim C3 at the first test of the specification: origin \<open>(0,0,5)\<close>, direction
  \<open>(0,0,-1)\<close>, unit sphere at the origin; both forms return \<open>t = 4\<close>.
\<close>

theorem intersect_forms_agree_witness:
  "Vec3_length (direction (Ray_new (Vec3 0 0 5) (Vec3 0 0 (- 1)))) = 1
   \<and> Sphere_intersect candy_sphere (Ray_new (Vec3 0 0 5) (Vec3 0 0 (- 1))) = Some 4
   \<and> Sphere_intersect_main candy_sphere (Ray_new (Vec3 0 0 5) (Vec3 0 0 (- 1))) = Some 4"
proof -
  let ?r = "Ray_new (Vec3 0 0 5) (Vec3 0 0 (- 1))"
  have u: "Vec3_length (direction ?r) = 1"
    by (simp add: Ray_new_def example_ray_down Vec3_length_def)
  have h: "Sphere_intersect candy_sphere ?r = Some 4"
    by (simp add: Sphere_intersect_def Ray_new_def example_ray_down candy_sphere_def Vec3_sub_def
          Vec3_dot_def Vec3_lengthSquared_def)
  have m: "Sphere_intersect_main candy_sphere ?r = Some 4"
    using intersect_forms_agree [OF u, of candy_sphere] h by simp
  from u h m show ?thesis by (intro conjI)
qed

text \<open>
  Claim C3 as stated (agreement on hit versus no hit also in floating point) fails in
  binary64 on a ray the constructor has normalised.  On
  \<^verbatim>\<open>Ray(Vec3(-1, -1, 1), Vec3(1, 1, 0))\<close> and the unit sphere the half-b form computes the
  discriminant \<open>-2\<^sup>-\<^sup>5\<^sup>1\<close> and reports no hit, and the general form computes the discriminant
  0 and reports a hit at \<open>t = 1.4142135623730951\<close>.
\<close>

theorem intersect_forms_rounding_counterexample:
  "diagonal_ray = dRay_new (dVec3 (Fin (- 1)) (Fin (- 1)) (Fin 1)) (dVec3 (Fin 1) (Fin 1) (Fin 0))
   \<and> dSphere_intersect (d_sphere 1) diagonal_ray = None
   \<and> dSphere_intersect_main (d_sphere 1) diagonal_ray
       = Some (Fin (6369051672525773 / 4503599627370496))"
  using diagonal_ray_def diagonal_half diagonal_main by (intro conjI)

section \<open>The closest-hit query\<close>

lemma closest_inv_d_step:
  assumes "closest_inv_d isect sps ray i (closest_t, hit_idx)"
  shows "closest_inv_d isect sps ray (i + 1)
           (case isect (sps ! i) ray of
              Some t \<Rightarrow> if dless t closest_t then (t, int i) else (closest_t, hit_idx)
            | None \<Rightarrow> (closest_t, hit_idx))"
proof (cases "isect (sps ! i) ray")
  case None
  then show ?thesis
    using assms by (auto simp: closest_inv_d_def less_Suc_eq)
next
  case (Some t)
  show ?thesis
  proof (cases "dless t closest_t")
    case True
    have 1: "dless t (Fin DBL_MAX)"
      using assms True by (auto simp: closest_inv_d_def intro: dless_trans)
    have 2: "\<not> dless t' t \<and> (t' = t \<longrightarrow> i \<le> k)"
      if "k < i + 1" "isect (sps ! k) ray = Some t'" for k t'
    proof (cases "k = i")
      case True
      then show ?thesis using that Some by (simp add: dless_irrefl)
    next
      case False
      then have k: "k < i" using that(1) by simp
      have n: "\<not> dless t' closest_t"
        using assms k that(2) by (auto simp: closest_inv_d_def)
      then have "\<not> dless t' t" using True dless_trans by blast
      moreover have "t' \<noteq> t" using n True by blast
      ultimately show ?thesis by simp
    qed
    show ?thesis
      using True Some 1 2 by (simp add: closest_inv_d_def)
  next
    case False
    then show ?thesis
      using assms Some by (auto simp: closest_inv_d_def less_Suc_eq)
  qed
qed

lemma d_intersect_loop_inv:
  "closest_inv_d isect sps ray i st \<Longrightarrow> i \<le> length sps \<Longrightarrow>
   closest_inv_d isect sps ray (length sps) (d_intersect_loop isect sps ray i st)"
proof (induction isect sps ray i st rule: d_intersect_loop.induct)
  case (1 isect sps ray i closest_t hit_idx)
  show ?case
  proof (cases "i < length sps")
    case True
    have "closest_inv_d isect sps ray (length sps)
            (d_intersect_loop isect sps ray (i + 1)
              (case isect (sps ! i) ray of
                 Some t \<Rightarrow> if dless t closest_t then (t, int i) else (closest_t, hit_idx)
               | None \<Rightarrow> (closest_t, hit_idx)))"
      using True "1.prems" by (intro "1.IH" closest_inv_d_step) simp_all
    then show ?thesis using True by simp
  next
    case False
    then show ?thesis using "1.prems" by simp
  qed
qed

lemma dScene_intersect_with_closest:
  assumes "dScene_intersect_with isect sc ray = (found, closest_t, hit_idx)"
  shows "(found \<longrightarrow>
            0 \<le> hit_idx \<and> hit_idx < int (length (d_spheres sc))
            \<and> isect (d_spheres sc ! nat hit_idx) ray = Some closest_t
            \<and> dless closest_t (Fin DBL_MAX)
            \<and> (\<forall>i<length (d_spheres sc). \<forall>t. isect (d_spheres sc ! i) ray = Some t \<longrightarrow>
                  \<not> dless t closest_t \<and> (t = closest_t \<longrightarrow> hit_idx \<le> int i)))
       \<and> (\<not> found \<longrightarrow>
            hit_idx = - 1 \<and> closest_t = Fin DBL_MAX
            \<and> (\<forall>i<length (d_spheres sc). \<forall>t. isect (d_spheres sc ! i) ray = Some t \<longrightarrow>
                  \<not> dless t (Fin DBL_MAX)))"
proof -
  have l: "d_intersect_loop isect (d_spheres sc) ray 0 (Fin DBL_MAX, - 1) = (closest_t, hit_idx)"
    and f: "found \<longleftrightarrow> hit_idx \<noteq> - 1"
    using assms by (auto simp: dScene_intersect_with_def split: prod.splits)
  have "closest_inv_d isect (d_spheres sc) ray 0 (Fin DBL_MAX, - 1)"
    by (simp add: closest_inv_d_def)
  then have "closest_inv_d isect (d_spheres sc) ray (length (d_spheres sc)) (closest_t, hit_idx)"
    using d_intersect_loop_inv [of isect "d_spheres sc" ray 0 "(Fin DBL_MAX, - 1)"] l by simp
  then show ?thesis
    unfolding closest_inv_d_def f by (auto simp: nat_le_iff)
qed

lemma closest_hit_spec_d_with:
  assumes e: "\<And>s t. isect s ray = Some t \<Longrightarrow> dless (lit 0.001) t"
    and r: "dScene_intersect_with isect sc ray = (found, closest_t, hit_idx)"
  shows "closest_hit_spec_d isect sc ray found closest_t hit_idx"
  using dScene_intersect_with_closest [OF r] e [of "d_spheres sc ! nat hit_idx" closest_t]
  unfolding closest_hit_spec_d_def by (cases found) simp_all

lemma dScene_intersect_miss_infinite:
  assumes "dScene_intersect sc ray = (False, closest_t, hit_idx)"
    and "i < length (d_spheres sc)" "dSphere_intersect (d_spheres sc ! i) ray = Some t"
  shows "t = PInf"
proof (rule ccontr)
  assume "t \<noteq> PInf"
  then have "dless t (Fin DBL_MAX)" using assms(3) by (intro dSphere_intersect_below_max)
  then show False
    using dScene_intersect_with_closest [OF assms(1) [unfolded dScene_intersect_def]] assms(2,3)
    by blast
qed

text \<open>
  Claim C7, as the code has it, for \<^verbatim>\<open>Scene::intersect\<close> of both files in binary64.
  When the query returns true, \<open>hit_idx\<close> is a valid index, \<open>closest_t\<close> is the parameter
  of that sphere, it compares above 0.001, no sphere reports a smaller parameter, and no
  sphere before \<open>hit_idx\<close> reports the same one.  When it returns false, \<open>hit_idx\<close> is
  \<open>-1\<close> and no sphere reports a parameter below \<^verbatim>\<open>DBL_MAX\<close>; for raytracer.cpp a
  parameter that a sphere still reports is \<open>+\<infinity>\<close>.
\<close>

theorem dScene_intersect_closest_hit:
  "(dScene_intersect sc ray = (found, closest_t, hit_idx) \<longrightarrow>
      closest_hit_spec_d dSphere_intersect sc ray found closest_t hit_idx
      \<and> (\<not> found \<longrightarrow>
           (\<forall>i<length (d_spheres sc). \<forall>t.
              dSphere_intersect (d_spheres sc ! i) ray = Some t \<longrightarrow> t = PInf)))
   \<and> (dScene_intersect_main sc ray = (found, closest_t, hit_idx) \<longrightarrow>
      closest_hit_spec_d dSphere_intersect_main sc ray found closest_t hit_idx)"
proof (intro conjI impI allI)
  assume r: "dScene_intersect sc ray = (found, closest_t, hit_idx)"
  show "closest_hit_spec_d dSphere_intersect sc ray found closest_t hit_idx"
    using r dSphere_intersect_above_eps
    unfolding dScene_intersect_def by (intro closest_hit_spec_d_with)
  fix i t
  assume "\<not> found" "i < length (d_spheres sc)"
    "dSphere_intersect (d_spheres sc ! i) ray = Some t"
  then show "t = PInf"
    using r by (intro dScene_intersect_miss_infinite [of sc ray closest_t hit_idx i]) simp_all
next
  assume "dScene_intersect_main sc ray = (found, closest_t, hit_idx)"
  then show "closest_hit_spec_d dSphere_intersect_main sc ray found closest_t hit_idx"
    using dSphere_intersect_main_above_eps
    unfolding dScene_intersect_main_def by (intro closest_hit_spec_d_with)
qed

lemma d_scan_huge:
  "dScene_intersect (d_scene [d_sphere (pow2 600)]) (down_ray 0 0 0) = (False, Fin DBL_MAX, - 1)"
  by (simp add: dScene_intersect_def dScene_intersect_with_def d_scene_def d_hit_huge)

lemma d_scan_tie:
  "dScene_intersect (d_scene [d_sphere 1, d_sphere 2, d_sphere 1, d_sphere 2]) (down_ray 0 0 5)
     = (True, Fin 3, 1)"
  using DBL_MAX_big
  by (simp add: dScene_intersect_def dScene_intersect_with_def d_scene_def d_hit_unit d_hit_wide)

lemma d_scan_miss:
  "dScene_intersect (d_scene [d_sphere 1, d_sphere 2, d_sphere 1, d_sphere 2]) (down_ray 5 0 0)
     = (False, Fin DBL_MAX, - 1)"
  by (simp add: dScene_intersect_def dScene_intersect_with_def d_scene_def d_miss_unit d_miss_wide)

text \<open>
  Claim C7 on a scene of four spheres whose parameters along the ray are 4, 3, 4, 3: the
  query returns \<open>t = 3\<close> at index 1, the earlier of the two nearest; a ray that passes
  beside all four returns false with index \<open>-1\<close>.
\<close>

theorem dScene_intersect_closest_hit_witness:
  "dScene_intersect (d_scene [d_sphere 1, d_sphere 2, d_sphere 1, d_sphere 2]) (down_ray 0 0 5)
     = (True, Fin 3, 1)
   \<and> closest_hit_spec_d dSphere_intersect
        (d_scene [d_sphere 1, d_sphere 2, d_sphere 1, d_sphere 2]) (down_ray 0 0 5) True (Fin 3) 1
   \<and> dSphere_intersect (d_sphere 2) (down_ray 0 0 5) = Some (Fin 3)
   \<and> dScene_intersect (d_scene [d_sphere 1, d_sphere 2, d_sphere 1, d_sphere 2]) (down_ray 5 0 0)
     = (False, Fin DBL_MAX, - 1)
   \<and> closest_hit_spec_d dSphere_intersect
        (d_scene [d_sphere 1, d_sphere 2, d_sphere 1, d_sphere 2]) (down_ray 5 0 0)
        False (Fin DBL_MAX) (- 1)"
proof -
  let ?sc = "d_scene [d_sphere 1, d_sphere 2, d_sphere 1, d_sphere 2]"
  have a: "closest_hit_spec_d dSphere_intersect ?sc (down_ray 0 0 5) True (Fin 3) 1"
    using dScene_intersect_closest_hit [of ?sc "down_ray 0 0 5" True "Fin 3" 1] d_scan_tie
    by blast
  have b: "closest_hit_spec_d dSphere_intersect ?sc (down_ray 5 0 0) False (Fin DBL_MAX) (- 1)"
    using dScene_intersect_closest_hit [of ?sc "down_ray 5 0 0" False "Fin DBL_MAX" "- 1"]
      d_scan_miss by blast
  from d_scan_tie a d_hit_wide d_scan_miss b show ?thesis by (intro conjI)
qed

text \<open>
  Claim C7 as stated (when the query returns false, no sphere has a valid intersection)
  fails: for the sphere of radius \<open>2\<^sup>6\<^sup>0\<^sup>0\<close> around the ray origin \<^verbatim>\<open>Sphere::intersect\<close>
  returns true with \<open>t = +\<infinity>\<close>, which is not below \<^verbatim>\<open>DBL_MAX\<close>, and
  \<^verbatim>\<open>Scene::intersect\<close> returns false.
\<close>

theorem dScene_intersect_miss_counterexample:
  "dSphere_intersect (d_sphere (pow2 600)) (down_ray 0 0 0) = Some PInf
   \<and> dScene_intersect (d_scene [d_sphere (pow2 600)]) (down_ray 0 0 0) = (False, Fin DBL_MAX, - 1)
   \<and> \<not> (\<forall>sc ray. \<not> fst (dScene_intersect sc ray) \<longrightarrow>
         (\<forall>s\<in>set (d_spheres sc). dSphere_intersect s ray = None))"
proof -
  have "\<not> (\<forall>sc ray. \<not> fst (dScene_intersect sc ray) \<longrightarrow>
         (\<forall>s\<in>set (d_spheres sc). dSphere_intersect s ray = None))"
  proof
    assume a: "\<forall>sc ray. \<not> fst (dScene_intersect sc ray) \<longrightarrow>
           (\<forall>s\<in>set (d_spheres sc). dSphere_intersect s ray = None)"
    have "\<not> fst (dScene_intersect (d_scene [d_sphere (pow2 600)]) (down_ray 0 0 0))"
      by (simp add: d_scan_huge)
    then have "\<forall>s\<in>set (d_spheres (d_scene [d_sphere (pow2 600)])).
        dSphere_intersect s (down_ray 0 0 0) = None"
      using a by blast
    then show False by (simp add: d_scene_def d_hit_huge)
  qed
  with d_hit_huge d_scan_huge show ?thesis by (intro conjI)
qed

section \<open>The any-hit shadow query\<close>

lemma d_intersectShadow_loop_iff:
  "d_intersectShadow_loop sps ray d \<longleftrightarrow>
     (\<exists>s\<in>set sps. \<exists>t. dSphere_intersect s ray = Some t \<and> dless (lit 0.001) t \<and> dless t d)"
  by (induction sps) (auto split: option.splits)

lemma dintersectShadow_closest:
  "dScene_intersectShadow sc ray d = closest_hit_shadow_d sc ray d"
proof -
  obtain found closest_t hit_idx
    where r: "dScene_intersect_with dSphere_intersect sc ray = (found, closest_t, hit_idx)"
    by (cases "dScene_intersect_with dSphere_intersect sc ray") auto
  note c = dScene_intersect_with_closest [OF r]
  have l: "closest_hit_shadow_d sc ray d \<longleftrightarrow>
             found \<and> dless (lit 0.001) closest_t \<and> dless closest_t d"
    using r by (simp add: closest_hit_shadow_d_def dScene_intersect_def)
  have s: "dScene_intersectShadow sc ray d \<longleftrightarrow>
     (\<exists>i<length (d_spheres sc). \<exists>t. dSphere_intersect (d_spheres sc ! i) ray = Some t
         \<and> dless (lit 0.001) t \<and> dless t d)"
    unfolding dScene_intersectShadow_def d_intersectShadow_loop_iff
    by (metis in_set_conv_nth)
  show ?thesis
  proof
    assume "dScene_intersectShadow sc ray d"
    then obtain i t where i: "i < length (d_spheres sc)"
      and t: "dSphere_intersect (d_spheres sc ! i) ray = Some t" "dless (lit 0.001) t" "dless t d"
      using s by blast
    have "t \<noteq> PInf" using t(3) by auto
    then have tm: "dless t (Fin DBL_MAX)" using t(1) by (intro dSphere_intersect_below_max)
    have found: found
    proof (rule ccontr)
      assume "\<not> found"
      then have "\<not> dless t (Fin DBL_MAX)" using c i t(1) by blast
      then show False using tm by simp
    qed
    then have h: "dSphere_intersect (d_spheres sc ! nat hit_idx) ray = Some closest_t"
      and n: "\<not> dless t closest_t" using c i t(1) by blast+
    have e: "dless (lit 0.001) closest_t" using h by (rule dSphere_intersect_above_eps)
    have "closest_t \<noteq> NaN" "t \<noteq> NaN" using e t(2) dless_not_NaN by blast+
    then have "closest_t = t \<or> dless closest_t t" using n dless_total by blast
    then have "dless closest_t d" using t(3) dless_trans by blast
    then show "closest_hit_shadow_d sc ray d" using l found e by simp
  next
    assume "closest_hit_shadow_d sc ray d"
    then have f: found "dless (lit 0.001) closest_t" "dless closest_t d" using l by simp_all
    then have "nat hit_idx < length (d_spheres sc)"
      "dSphere_intersect (d_spheres sc ! nat hit_idx) ray = Some closest_t"
      using c by auto
    then show "dScene_intersectShadow sc ray d" using s f by blast
  qed
qed

text \<open>
  Claim C1, for \<^verbatim>\<open>Scene::intersectShadow\<close> in binary64: for every scene, every ray and
  every light distance \<open>d\<close> (finite, infinite or NaN) the any-hit query returns true
  exactly when \<^verbatim>\<open>Sphere::intersect\<close> reports, for some sphere of the scene, a parameter
  \<open>t\<close> with \<open>0.001 < t\<close> and \<open>t < d\<close>; and its verdict equals that of the closest-hit query
  restricted to the interval from 0.001 to \<open>d\<close>.
\<close>

theorem dintersectShadow_any_hit:
  "(dScene_intersectShadow sc ray d \<longleftrightarrow>
      (\<exists>s\<in>set (d_spheres sc). \<exists>t.
         dSphere_intersect s ray = Some t \<and> dless (lit 0.001) t \<and> dless t d))
   \<and> dScene_intersectShadow sc ray d = closest_hit_shadow_d sc ray d"
  using dintersectShadow_closest [of sc ray d]
  unfolding dScene_intersectShadow_def d_intersectShadow_loop_iff by blast

text \<open>
  Claim C1 on the scene of four spheres with parameters 4, 3, 4, 3 along the ray: with
  the light at distance 5 both checks report a shadow, with the light at distance 2
  neither does.
\<close>

theorem dintersectShadow_any_hit_witness:
  "dScene_intersectShadow (d_scene [d_sphere 1, d_sphere 2, d_sphere 1, d_sphere 2])
     (down_ray 0 0 5) (Fin 5)
   \<and> closest_hit_shadow_d (d_scene [d_sphere 1, d_sphere 2, d_sphere 1, d_sphere 2])
     (down_ray 0 0 5) (Fin 5)
   \<and> \<not> dScene_intersectShadow (d_scene [d_sphere 1, d_sphere 2, d_sphere 1, d_sphere 2])
     (down_ray 0 0 5) (Fin 2)
   \<and> \<not> closest_hit_shadow_d (d_scene [d_sphere 1, d_sphere 2, d_sphere 1, d_sphere 2])
     (down_ray 0 0 5) (Fin 2)"
proof -
  let ?sc = "d_scene [d_sphere 1, d_sphere 2, d_sphere 1, d_sphere 2]"
  have s: "dScene_intersectShadow ?sc (down_ray 0 0 5) (Fin 5)"
    by (simp add: dScene_intersectShadow_def d_scene_def d_hit_unit lit_eps)
  have n: "\<not> dScene_intersectShadow ?sc (down_ray 0 0 5) (Fin 2)"
    by (simp add: dScene_intersectShadow_def d_scene_def d_hit_unit d_hit_wide lit_eps)
  have c: "closest_hit_shadow_d ?sc (down_ray 0 0 5) (Fin 5)"
    using dintersectShadow_any_hit [of ?sc "down_ray 0 0 5" "Fin 5"] s by blast
  have m: "\<not> closest_hit_shadow_d ?sc (down_ray 0 0 5) (Fin 2)"
    using dintersectShadow_any_hit [of ?sc "down_ray 0 0 5" "Fin 2"] n by blast
  from s c n m show ?thesis by (intro conjI)
qed

section \<open>The pixel conversion\<close>

lemma lit_scale: "lit (25599 / 100) = Fin (1125855926377513 / 4398046511104)"
  unfolding lit_def
  by (rule rnd_eval [where e = 7 and n = 9006847411020104])
     (simp_all add: pow2_def round_even_def Let_def)

lemma lit_scale_raw: "lit 255.99 = Fin (1125855926377513 / 4398046511104)"
  using lit_scale by simp

lemma rnd_scale:
  "rnd (1125855926377513 / 4398046511104) = Fin (1125855926377513 / 4398046511104)"
  by (rule rnd_eval [where e = 7 and n = 9006847411020104])
     (simp_all add: pow2_def round_even_def Let_def)

text \<open>
  The scaled channel: for \<open>0 \<le> r \<le> 1\<close> the product with the double \<^verbatim>\<open>255.99\<close> is a finite
  double between 0 and that double, so below 256.
\<close>

lemma scale_range:
  assumes "0 \<le> r" "r \<le> 1"
  shows "\<exists>q. dmul (lit 255.99) (Fin r) = Fin q \<and> 0 \<le> q \<and> q < 256"
proof -
  let ?k = "1125855926377513 / 4398046511104 :: real"
  have "0 \<le> ?k * r" using assms by simp
  moreover have "?k * r \<le> ?k * 1" using assms by (intro mult_left_mono) simp_all
  then have "?k * r \<le> ?k" by simp
  ultimately obtain q where "rnd (?k * r) = Fin q" "0 \<le> q" "q \<le> ?k"
    using rnd_le_representable [OF _ _ rnd_scale] by blast
  moreover have "?k < 256" by simp
  ultimately show ?thesis by (simp add: lit_scale)
qed

lemma clamp_channel: "dmin (Fin 1) (dmax (Fin 0) x) = unit_clamp x"
  by (cases x) (auto simp: dmax_def dmin_def unit_clamp_def)

lemma unit_clamp_range: "\<exists>r. unit_clamp x = Fin r \<and> 0 \<le> r \<and> r \<le> 1"
  by (cases x) (auto simp: unit_clamp_def)

lemma to_Uint8_d_floor:
  assumes "0 \<le> q" "q < 256"
  shows "uint (to_Uint8_d (Fin q)) = \<lfloor>q\<rfloor>"
proof -
  have "0 \<le> \<lfloor>q\<rfloor>" "\<lfloor>q\<rfloor> < 256" using assms by (simp_all add: floor_less_iff)
  then show ?thesis using assms by (simp add: uint_word_of_int take_bit_eq_mod)
qed

lemma channel_byte:
  "uint (to_Uint8_d (dmul (lit 255.99) (dmin (Fin 1) (dmax (Fin 0) x)))) = sample_byte x"
proof -
  obtain r where r: "unit_clamp x = Fin r" "0 \<le> r" "r \<le> 1"
    using unit_clamp_range by blast
  obtain q where q: "dmul (lit 255.99) (Fin r) = Fin q" "0 \<le> q" "q < 256"
    using scale_range [OF r(2,3)] by blast
  show ?thesis
    unfolding clamp_channel sample_byte_def r(1) q(1)
    using to_Uint8_d_floor [OF q(2,3)] by simp
qed

lemma channel_defined:
  "\<exists>q. dmul (lit 255.99) (dmin (Fin 1) (dmax (Fin 0) x)) = Fin q \<and> 0 \<le> q \<and> q < 256"
proof -
  obtain r where r: "unit_clamp x = Fin r" "0 \<le> r" "r \<le> 1"
    using unit_clamp_range by blast
  show ?thesis unfolding clamp_channel r(1) using scale_range [OF r(2,3)] .
qed

lemma sample_byte_above: "dless (Fin 1) x \<Longrightarrow> sample_byte x = 255"
  by (simp add: sample_byte_def unit_clamp_def lit_scale rnd_scale)

lemma sample_byte_below: "\<not> dless (Fin 0) x \<Longrightarrow> sample_byte x = 0"
  by (cases x) (auto simp: sample_byte_def unit_clamp_def lit_scale)

lemma sample_byte_inside:
  assumes "dless (Fin 0) x" "\<not> dless (Fin 1) x"
  shows "\<exists>r q. x = Fin r \<and> 0 < r \<and> r \<le> 1 \<and> dmul (lit 255.99) x = Fin q \<and> 0 \<le> q \<and> q < 256
           \<and> sample_byte x = \<lfloor>q\<rfloor>"
proof -
  obtain r where r: "x = Fin r" "0 < r" "r \<le> 1"
    using assms by (cases x) auto
  obtain q where q: "dmul (lit 255.99) (Fin r) = Fin q" "0 \<le> q" "q < 256"
    using scale_range [of r] r by auto
  have "sample_byte x = \<lfloor>q\<rfloor>"
    using assms q(1) by (simp add: sample_byte_def unit_clamp_def r(1))
  then show ?thesis using r q by blast
qed

lemma render_pixel_d_channels:
  fixes getRay tr width height i j
  defines "c \<equiv> tr (getRay (ddiv (double_of_int i) (double_of_int (width - 1)))
              (ddiv (double_of_int (height - 1 - j)) (double_of_int (height - 1)))
              (ddiv (double_of_int width) (double_of_int height)))"
    and "p \<equiv> render_pixel_d getRay tr width height i j"
  shows "drop_bit 24 p = 0xFF"
    and "uint (ucast (drop_bit 16 p) :: 8 word) = sample_byte (dvec_x c)"
    and "uint (ucast (drop_bit 8 p) :: 8 word) = sample_byte (dvec_y c)"
    and "uint (ucast p :: 8 word) = sample_byte (dvec_z c)"
proof -
  have p: "p = pack_pixel
      (to_Uint8_d (dmul (lit 255.99) (dmin (Fin 1) (dmax (Fin 0) (dvec_x c)))))
      (to_Uint8_d (dmul (lit 255.99) (dmin (Fin 1) (dmax (Fin 0) (dvec_y c)))))
      (to_Uint8_d (dmul (lit 255.99) (dmin (Fin 1) (dmax (Fin 0) (dvec_z c)))))"
    unfolding p_def c_def render_pixel_d_def Let_def dclamp_def dVec3.sel by (rule refl)
  show "drop_bit 24 p = 0xFF" unfolding p by (rule pack_alpha)
  show "uint (ucast (drop_bit 16 p) :: 8 word) = sample_byte (dvec_x c)"
    unfolding p pack_red by (rule channel_byte)
  show "uint (ucast (drop_bit 8 p) :: 8 word) = sample_byte (dvec_y c)"
    unfolding p pack_green by (rule channel_byte)
  show "uint (ucast p :: 8 word) = sample_byte (dvec_z c)"
    unfolding p pack_blue by (rule channel_byte)
qed

lemma store_pixel_d_length [simp]:
  "length (store_pixel_d getRay tr width height c pixels) = length pixels"
  by (simp add: store_pixel_d_def split: prod.splits)

lemma fold_store_d_length [simp]:
  "length (fold (store_pixel_d getRay tr width height) sched pixels) = length pixels"
  by (induction sched arbitrary: pixels) simp_all

lemma fold_store_d_nth:
  assumes "\<forall>c\<in>set sched. 0 \<le> fst c \<and> fst c < width \<and> 0 \<le> snd c"
    and "k < length pixels"
  shows "fold (store_pixel_d getRay tr width height) sched pixels ! k =
     (if \<exists>c\<in>set sched. nat (snd c * width + fst c) = k
      then render_pixel_d getRay tr width height (int k mod width) (int k div width)
      else pixels ! k)"
  using assms
proof (induction sched arbitrary: pixels)
  case Nil
  then show ?case by simp
next
  case (Cons c sched)
  obtain i j where c: "c = (i, j)" by (cases c)
  have g: "0 \<le> i" "i < width" "0 \<le> j" using Cons.prems(1) c by simp_all
  let ?px = "store_pixel_d getRay tr width height c pixels"
  have here: "?px ! k = (if nat (j * width + i) = k
      then render_pixel_d getRay tr width height (int k mod width) (int k div width)
      else pixels ! k)"
    using Cons.prems(2) cell_of_index [OF g] by (auto simp: store_pixel_d_def c)
  have "fold (store_pixel_d getRay tr width height) sched ?px ! k =
     (if \<exists>c\<in>set sched. nat (snd c * width + fst c) = k
      then render_pixel_d getRay tr width height (int k mod width) (int k div width)
      else ?px ! k)"
    using Cons.prems by (intro Cons.IH) simp_all
  then show ?case using here by (auto simp: c)
qed

lemma render_row_d_fold:
  "render_row_d getRay tr width height j i pixels =
     fold (store_pixel_d getRay tr width height) (map (\<lambda>i. (i, j)) [i..width - 1]) pixels"
proof (induction getRay tr width height j i pixels rule: render_row_d.induct)
  case (1 getRay tr width height j i pixels)
  show ?case
  proof (cases "i < width")
    case True
    then have "[i..width - 1] = i # [i + 1..width - 1]" by (simp add: upto_rec1)
    then show ?thesis using True "1.IH" by (subst render_row_d.simps) simp
  next
    case False
    then show ?thesis by (subst render_row_d.simps) simp
  qed
qed

lemma render_rows_d_fold:
  "render_rows_d getRay tr width height j pixels =
     fold (store_pixel_d getRay tr width height)
       (concat (map (\<lambda>j. map (\<lambda>i. (i, j)) [0..width - 1]) [j..height - 1])) pixels"
proof (induction getRay tr width height j pixels rule: render_rows_d.induct)
  case (1 getRay tr width height j pixels)
  show ?case
  proof (cases "j < height")
    case True
    then have "[j..height - 1] = j # [j + 1..height - 1]" by (simp add: upto_rec1)
    then show ?thesis
      using True "1.IH" by (subst render_rows_d.simps) (simp add: render_row_d_fold)
  next
    case False
    then show ?thesis by (subst render_rows_d.simps) simp
  qed
qed

lemma dRenderer_render_nth:
  assumes c: "0 \<le> i" "i < width" "0 \<le> j" "j < height"
    and l: "length pixels = nat (width * height)"
  shows "dRenderer_render getRay tr width height pixels ! nat (j * width + i) =
           render_pixel_d getRay tr width height i j"
proof -
  have s: "is_schedule width height (row_major width height)" by (rule row_major_schedule)
  have grid: "\<forall>c\<in>set (row_major width height). 0 \<le> fst c \<and> fst c < width \<and> 0 \<le> snd c"
    using s by (auto simp: is_schedule_def)
  have "j * width + i < (j + 1) * width" using c by (simp add: algebra_simps)
  also have "\<dots> \<le> height * width" using c by (intro mult_right_mono) simp_all
  finally have k: "nat (j * width + i) < length pixels"
    using l c by (simp add: mult.commute nat_less_iff)
  have m: "(i, j) \<in> set (row_major width height)" using s c by (simp add: is_schedule_def)
  have e: "\<exists>c\<in>set (row_major width height). nat (snd c * width + fst c) = nat (j * width + i)"
    using m by force
  have "dRenderer_render getRay tr width height pixels =
          fold (store_pixel_d getRay tr width height) (row_major width height) pixels"
    by (simp add: dRenderer_render_def render_rows_d_fold row_major_def)
  then show ?thesis
    using fold_store_d_nth [OF grid k, of getRay tr height] e cell_of_index [OF c(1,2,3) refl]
    by simp
qed

text \<open>
  Claim C9, for the loop body of \<^verbatim>\<open>Renderer::render\<close> in binary64, whatever colour
  \<^verbatim>\<open>trace\<close> returns for the pixel's ray.  The top byte of the stored sample (alpha) is
  \<open>0xFF\<close>, and its red, green and blue bytes are \<open>sample_byte\<close> of the three channels.
  \<open>sample_byte\<close> clamps, scales and truncates: it is 255 for a channel above 1, 0 for a
  channel that is not above 0 (NaN included), and for a channel \<open>x\<close> from 0 to 1 the
  integer part of the double \<^verbatim>\<open>255.99 * x\<close>, a number from 0 to below 256, so that the
  conversion to a byte is defined and does not wrap.  For every pixel inside the grid
  the renderer stores that sample at index \<open>j * width + i\<close> of the buffer.
\<close>

theorem render_pixel_sample:
  "(let c = tr (getRay (ddiv (double_of_int i) (double_of_int (width - 1)))
                 (ddiv (double_of_int (height - 1 - j)) (double_of_int (height - 1)))
                 (ddiv (double_of_int width) (double_of_int height)));
        p = render_pixel_d getRay tr width height i j
    in drop_bit 24 p = 0xFF
       \<and> uint (ucast (drop_bit 16 p) :: 8 word) = sample_byte (dvec_x c)
       \<and> uint (ucast (drop_bit 8 p) :: 8 word) = sample_byte (dvec_y c)
       \<and> uint (ucast p :: 8 word) = sample_byte (dvec_z c))
   \<and> (dless (Fin 1) x \<longrightarrow> sample_byte x = 255)
   \<and> (\<not> dless (Fin 0) x \<longrightarrow> sample_byte x = 0)
   \<and> (dless (Fin 0) x \<and> \<not> dless (Fin 1) x \<longrightarrow>
        (\<exists>r q. x = Fin r \<and> 0 < r \<and> r \<le> 1 \<and> dmul (lit 255.99) x = Fin q \<and> 0 \<le> q \<and> q < 256
           \<and> sample_byte x = \<lfloor>q\<rfloor>))
   \<and> (\<exists>q. dmul (lit 255.99) (dmin (Fin 1) (dmax (Fin 0) x)) = Fin q \<and> 0 \<le> q \<and> q < 256)
   \<and> (0 \<le> i \<and> i < width \<and> 0 \<le> j \<and> j < height \<and> length pixels = nat (width * height) \<longrightarrow>
        dRenderer_render getRay tr width height pixels ! nat (j * width + i) =
          render_pixel_d getRay tr width height i j)"
  unfolding Let_def
  using render_pixel_d_channels [of getRay tr width height i j]
    sample_byte_above [of x] sample_byte_below [of x] sample_byte_inside [of x]
    channel_defined [of x]
    dRenderer_render_nth [of i width j height pixels getRay tr]
  by blast

lemma fixed_trace_pixel: "render_pixel_d fixed_getRay fixed_trace 2 2 1 1 = 0xFFAEFF00"
proof -
  have "render_pixel_d fixed_getRay fixed_trace 2 2 1 1 =
      pack_pixel (to_Uint8_d (Fin 174)) (to_Uint8_d (Fin (1125855926377513 / 4398046511104)))
        (to_Uint8_d (Fin 0))"
    by (simp only: render_pixel_d_def Let_def fixed_trace_def dclamp_def dVec3.sel dmax_def
          dmin_def sample_ops if_True if_False lit_scale_raw)
  also have "\<dots> = 0xFFAEFF00" by (simp add: pack_pixel_def)
  finally show ?thesis .
qed

text \<open>
  The rounding of the product matters: the channel \<open>0x1.5c037aea306cp-1\<close> times 255.99
  lies just below 174 and truncates to 173 in exact arithmetic, while the double product
  is 174 (the byte \<open>0xAE\<close> of the witness below).
\<close>

lemma exact_product_floor:
  "\<lfloor>255.99 * (95661248384027 / 140737488355328 :: real)\<rfloor> = 173"
  by simp

text \<open>
  For an image one pixel wide, \<^verbatim>\<open>double(i) / (width - 1)\<close> is \<open>0 / 0\<close>: the coordinate
  \<open>u\<close> handed to \<^verbatim>\<open>getRay\<close> is NaN.
\<close>

lemma single_column_u: "ddiv (double_of_int 0) (double_of_int (1 - 1)) = NaN"
  by (simp add: double_of_int_def)

text \<open>
  Claim C9 on a 2 x 2 image whose every pixel is traced to the colour
  \<open>(0x1.5c037aea306cp-1, 2, -1)\<close>: pixel \<open>(1, 1)\<close> lands at index 3 and is \<open>0xFFAEFF00\<close>,
  the bytes 174, 255 and 0 under the opaque alpha byte.
\<close>

theorem render_pixel_sample_witness:
  "(0::int) \<le> 1 \<and> (1::int) < 2 \<and> length [0, 0, 0, 0 :: 32 word] = nat (2 * 2)
   \<and> dRenderer_render fixed_getRay fixed_trace 2 2 [0, 0, 0, 0] ! nat (1 * 2 + 1) = 0xFFAEFF00
   \<and> dless (Fin 0) (Fin (95661248384027 / 140737488355328))
   \<and> \<not> dless (Fin 1) (Fin (95661248384027 / 140737488355328))
   \<and> sample_byte (Fin (95661248384027 / 140737488355328)) = 174
   \<and> dless (Fin 1) (Fin 2) \<and> sample_byte (Fin 2) = 255
   \<and> \<not> dless (Fin 0) (Fin (- 1)) \<and> sample_byte (Fin (- 1)) = 0
   \<and> \<not> dless (Fin 0) NaN \<and> sample_byte NaN = 0"
proof -
  have h: "(0::int) \<le> 1" "(1::int) < 2" "length [0, 0, 0, 0 :: 32 word] = nat (2 * 2)"
    by simp_all
  note t = render_pixel_sample [of fixed_trace fixed_getRay 1 2 2 1 _ "[0, 0, 0, 0]"]
  have "dRenderer_render fixed_getRay fixed_trace 2 2 [0, 0, 0, 0] ! nat (1 * 2 + 1) =
          render_pixel_d fixed_getRay fixed_trace 2 2 1 1"
    using t [of NaN] h by blast
  then have a: "dRenderer_render fixed_getRay fixed_trace 2 2 [0, 0, 0, 0] ! nat (1 * 2 + 1)
      = 0xFFAEFF00"
    by (simp only: fixed_trace_pixel)
  have b: "dless (Fin 0) (Fin (95661248384027 / 140737488355328))"
    "\<not> dless (Fin 1) (Fin (95661248384027 / 140737488355328))" by simp_all
  have "uint (ucast (drop_bit 16 (render_pixel_d fixed_getRay fixed_trace 2 2 1 1)) :: 8 word)
          = sample_byte (Fin (95661248384027 / 140737488355328))"
    using t [of NaN] unfolding Let_def fixed_trace_def dVec3.sel by blast
  then have c: "sample_byte (Fin (95661248384027 / 140737488355328)) = 174"
    by (simp add: fixed_trace_pixel)
  have d: "dless (Fin 1) (Fin 2)" by simp
  have e: "sample_byte (Fin 2) = 255" using t [of "Fin 2"] d by blast
  have f: "\<not> dless (Fin 0) (Fin (- 1))" by simp
  have g: "sample_byte (Fin (- 1)) = 0" using t [of "Fin (- 1)"] f by blast
  have i: "\<not> dless (Fin 0) NaN" by simp
  have j: "sample_byte NaN = 0" using t [of NaN] i by blast
  from h a b c d e f g i j show ?thesis by (intro conjI)
qed

end
